theory Spec2Isabelle
  imports Complex_Main "HOL-Library.Char_ord" "HOL-Library.List_Lexorder"
    "HOL-Library.Sublist" "HOL-Library.AList" "HOL-Library.Multiset"
begin

section \<open>The ETRM trade server: a model of \<^verbatim>\<open>supabase/functions/server/index.tsx\<close>\<close>

text \<open>
  The server keeps two collections in a key-value store (trades and market prices), fills
  them from CSV uploads and answers two queries: a filtered, sorted and paginated trade
  list, and a mark-to-market valuation.  Every handler of the source is a function from
  its request and the store to a response and the new store.

  Conventions of the model:
  \<^item> A JavaScript string is a \<^typ>\<open>string\<close>.  The model covers ASCII text: white space is the
    ASCII white space that \<^verbatim>\<open>trim\<close> and \<^verbatim>\<open>parseFloat\<close> skip, and case mapping acts on
    \<^verbatim>\<open>a-z\<close> and \<^verbatim>\<open>A-Z\<close> only.  Strings are compared by character code, as \<^verbatim>\<open><=\<close> does.
  \<^item> A JavaScript number is a \<open>jsnum\<close>: an exact rational, an infinity or \<^verbatim>\<open>NaN\<close>.  The
    special values follow IEEE 754; binary rounding, overflow of finite results and the
    sign of zero are not modelled.
  \<^item> \<^verbatim>\<open>undefined\<close> is \<^const>\<open>None\<close>.
  \<^item> An object built by assignment is a list of keys with their values, over ordinary
    property names; the names every object inherits (\<^verbatim>\<open>__proto__\<close>, \<^verbatim>\<open>toString\<close> and the
    like) are not modelled as keys.
  \<^item> The rows that reach validation are those of the CSV parser: their values are strings
    or \<^verbatim>\<open>undefined\<close>.  A stored trade has the shape the upload gives it.
  \<^item> The platform's date parser (\<^verbatim>\<open>new Date(s).getTime()\<close>) and its collation
    (\<^verbatim>\<open>localeCompare\<close>) are parameters of the functions that call them.
\<close>

subsection \<open>Strings\<close>

definition is_space :: "char \<Rightarrow> bool" where
  "is_space c \<longleftrightarrow> c = CHR '' '' \<or> c = CHR 0x09 \<or> c = CHR 0x0A \<or> c = CHR 0x0B
     \<or> c = CHR 0x0C \<or> c = CHR 0x0D"

text \<open>\<^verbatim>\<open>s.trim()\<close>\<close>

definition trim :: "string \<Rightarrow> string" where
  "trim s = rev (dropWhile is_space (rev (dropWhile is_space s)))"

text \<open>\<^verbatim>\<open>s.split(sep)\<close> for a separator of one character: never empty, \<^verbatim>\<open>"".split(sep)\<close> is
  \<^verbatim>\<open>[""]\<close>.\<close>

fun split :: "char \<Rightarrow> string \<Rightarrow> string list" where
  "split sep [] = [[]]"
| "split sep (c # cs) =
     (if c = sep then [] # split sep cs
      else (case split sep cs of [] \<Rightarrow> [[c]] | w # ws \<Rightarrow> (c # w) # ws))"

definition is_digit :: "char \<Rightarrow> bool" where
  "is_digit c \<longleftrightarrow> CHR ''0'' \<le> c \<and> c \<le> CHR ''9''"

definition is_lower :: "char \<Rightarrow> bool" where
  "is_lower c \<longleftrightarrow> CHR ''a'' \<le> c \<and> c \<le> CHR ''z''"

definition is_upper :: "char \<Rightarrow> bool" where
  "is_upper c \<longleftrightarrow> CHR ''A'' \<le> c \<and> c \<le> CHR ''Z''"

definition toUpperCase :: "string \<Rightarrow> string" where
  "toUpperCase s = map (\<lambda>c. if is_lower c then char_of (of_char c - (32::nat)) else c) s"

definition toLowerCase :: "string \<Rightarrow> string" where
  "toLowerCase s = map (\<lambda>c. if is_upper c then char_of (of_char c + (32::nat)) else c) s"

text \<open>\<^verbatim>\<open>s.includes(sub)\<close>: \<open>sub\<close> occurs in \<open>s\<close> as a contiguous run.\<close>

fun str_includes :: "string \<Rightarrow> string \<Rightarrow> bool" where
  "str_includes [] sub \<longleftrightarrow> sub = []"
| "str_includes (c # cs) sub \<longleftrightarrow> prefix sub (c # cs) \<or> str_includes cs sub"

text \<open>\<^verbatim>\<open>s.replace(/\D/g, '')\<close>\<close>

definition stripNonDigits :: "string \<Rightarrow> string" where
  "stripNonDigits s = filter is_digit s"

text \<open>A value that is a string or \<^verbatim>\<open>undefined\<close> is truthy when it is a non-empty string.\<close>

definition truthy :: "string option \<Rightarrow> bool" where
  "truthy v \<longleftrightarrow> (case v of None \<Rightarrow> False | Some s \<Rightarrow> s \<noteq> [])"

text \<open>\<^verbatim>\<open>v || d\<close> for such a value.\<close>

definition orElse :: "string option \<Rightarrow> string \<Rightarrow> string" where
  "orElse v d = (case v of None \<Rightarrow> d | Some s \<Rightarrow> if s = [] then d else s)"

text \<open>\<^verbatim>\<open>String(v)\<close>, the conversion that \<^verbatim>\<open>parseFloat\<close> applies to its argument.\<close>

definition toString :: "string option \<Rightarrow> string" where
  "toString v = (case v of None \<Rightarrow> ''undefined'' | Some s \<Rightarrow> s)"

subsection \<open>Numbers\<close>

datatype jsnum = Num rat | PosInf | NegInf | NaN

definition isNaN :: "jsnum \<Rightarrow> bool" where
  "isNaN v \<longleftrightarrow> v = NaN"

fun js_neg :: "jsnum \<Rightarrow> jsnum" where
  "js_neg (Num a) = Num (- a)"
| "js_neg PosInf = NegInf"
| "js_neg NegInf = PosInf"
| "js_neg NaN = NaN"

fun js_add :: "jsnum \<Rightarrow> jsnum \<Rightarrow> jsnum" where
  "js_add NaN _ = NaN"
| "js_add _ NaN = NaN"
| "js_add (Num a) (Num b) = Num (a + b)"
| "js_add PosInf NegInf = NaN"
| "js_add NegInf PosInf = NaN"
| "js_add PosInf _ = PosInf"
| "js_add _ PosInf = PosInf"
| "js_add NegInf _ = NegInf"
| "js_add _ NegInf = NegInf"

definition js_sub :: "jsnum \<Rightarrow> jsnum \<Rightarrow> jsnum" where
  "js_sub a b = js_add a (js_neg b)"

text \<open>The sign of a number that is not \<^verbatim>\<open>NaN\<close>: \<open>1\<close>, \<open>0\<close> or \<open>-1\<close>.\<close>

fun js_sign :: "jsnum \<Rightarrow> int" where
  "js_sign (Num a) = (if a > 0 then 1 else if a < 0 then - 1 else 0)"
| "js_sign PosInf = 1"
| "js_sign NegInf = - 1"
| "js_sign NaN = 0"

fun js_mul :: "jsnum \<Rightarrow> jsnum \<Rightarrow> jsnum" where
  "js_mul NaN _ = NaN"
| "js_mul _ NaN = NaN"
| "js_mul (Num a) (Num b) = Num (a * b)"
| "js_mul a b =
     (if js_sign a * js_sign b = 0 then NaN
      else if js_sign a * js_sign b > 0 then PosInf else NegInf)"

fun js_div :: "jsnum \<Rightarrow> jsnum \<Rightarrow> jsnum" where
  "js_div NaN _ = NaN"
| "js_div _ NaN = NaN"
| "js_div (Num a) (Num b) =
     (if b \<noteq> 0 then Num (a / b)
      else if a = 0 then NaN else if a > 0 then PosInf else NegInf)"
| "js_div (Num a) _ = Num 0"
| "js_div a (Num b) = (if js_sign a * (if b < 0 then - 1 else 1) > 0 then PosInf else NegInf)"
| "js_div _ _ = NaN"

text \<open>\<^verbatim>\<open>Math.ceil\<close>\<close>

fun js_ceil :: "jsnum \<Rightarrow> jsnum" where
  "js_ceil (Num a) = Num (of_int \<lceil>a\<rceil>)"
| "js_ceil v = v"

text \<open>\<^verbatim>\<open>v || 0\<close> for a number or \<^verbatim>\<open>undefined\<close>: zero and \<^verbatim>\<open>NaN\<close> are falsy.\<close>

definition numOrZero :: "jsnum option \<Rightarrow> jsnum" where
  "numOrZero v = (case v of None \<Rightarrow> Num 0 | Some n \<Rightarrow> if n = NaN \<or> n = Num 0 then Num 0 else n)"

definition digit_val :: "char \<Rightarrow> nat" where
  "digit_val c = of_char c - 48"

definition dec_val :: "string \<Rightarrow> nat" where
  "dec_val ds = foldl (\<lambda>a c. 10 * a + digit_val c) 0 ds"

text \<open>Ten to an integer power.\<close>

definition pow10 :: "int \<Rightarrow> rat" where
  "pow10 e = (if e \<ge> 0 then 10 ^ nat e else 1 / 10 ^ nat (- e))"

text \<open>The exponent part of a decimal literal: \<^verbatim>\<open>e\<close> or \<^verbatim>\<open>E\<close>, an optional sign and at least one
  digit; anything else is no exponent.\<close>

definition exponent :: "string \<Rightarrow> int" where
  "exponent s =
     (case s of
        [] \<Rightarrow> 0
      | c # r \<Rightarrow>
          if c = CHR ''e'' \<or> c = CHR ''E'' then
            (case r of
               [] \<Rightarrow> 0
             | d # r' \<Rightarrow>
                 if d = CHR ''-'' then
                   (if takeWhile is_digit r' = [] then 0 else - int (dec_val (takeWhile is_digit r')))
                 else if d = CHR ''+'' then int (dec_val (takeWhile is_digit r'))
                 else int (dec_val (takeWhile is_digit r)))
          else 0)"

text \<open>The sign in front of a numeric literal and the rest of the text.\<close>

definition signed :: "string \<Rightarrow> bool \<times> string" where
  "signed s =
     (case s of
        [] \<Rightarrow> (False, [])
      | c # r \<Rightarrow> if c = CHR ''-'' then (True, r) else if c = CHR ''+'' then (False, r) else (False, s))"

text \<open>\<^verbatim>\<open>parseFloat(s)\<close> on a string: skip leading white space, read the longest prefix that is
  a decimal literal (\<^verbatim>\<open>Infinity\<close> included), ignore the rest; \<^verbatim>\<open>NaN\<close> when there is no
  such prefix.\<close>

definition parseFloat :: "string \<Rightarrow> jsnum" where
  "parseFloat s =
     (let (neg, u) = signed (dropWhile is_space s) in
      if prefix ''Infinity'' u then (if neg then NegInf else PosInf)
      else
        let ip = takeWhile is_digit u;
            r1 = dropWhile is_digit u;
            fp = (case r1 of [] \<Rightarrow> [] | c # r \<Rightarrow> if c = CHR ''.'' then takeWhile is_digit r else []);
            r2 = (case r1 of [] \<Rightarrow> [] | c # r \<Rightarrow> if c = CHR ''.'' then dropWhile is_digit r else r1)
        in if ip = [] \<and> fp = [] then NaN
           else
             let m = (of_nat (dec_val ip) + of_nat (dec_val fp) / 10 ^ length fp) * pow10 (exponent r2)
             in Num (if neg then - m else m))"

text \<open>\<^verbatim>\<open>parseFloat(v)\<close> on a value that may be \<^verbatim>\<open>undefined\<close>: the argument is converted to
  a string first.\<close>

definition parseFloatV :: "string option \<Rightarrow> jsnum" where
  "parseFloatV v = parseFloat (toString v)"

text \<open>\<^verbatim>\<open>parseFloat(n)\<close> on a number prints the number and reads it back, which gives the
  number itself.\<close>

definition parseFloatN :: "jsnum \<Rightarrow> jsnum" where
  "parseFloatN n = n"

definition is_hex :: "char \<Rightarrow> bool" where
  "is_hex c \<longleftrightarrow> is_digit c \<or> (CHR ''a'' \<le> c \<and> c \<le> CHR ''f'') \<or> (CHR ''A'' \<le> c \<and> c \<le> CHR ''F'')"

definition hex_digit_val :: "char \<Rightarrow> nat" where
  "hex_digit_val c =
     (if is_digit c then of_char c - 48
      else if CHR ''a'' \<le> c then of_char c - 87 else of_char c - 55)"

definition hex_val :: "string \<Rightarrow> nat" where
  "hex_val ds = foldl (\<lambda>a c. 16 * a + hex_digit_val c) 0 ds"

text \<open>\<^verbatim>\<open>parseInt(s)\<close> with no radix: leading white space, a sign, then hexadecimal digits
  after \<^verbatim>\<open>0x\<close> and decimal digits otherwise; \<^verbatim>\<open>NaN\<close> when there is no digit.\<close>

definition parseInt :: "string \<Rightarrow> jsnum" where
  "parseInt s =
     (let (neg, u) = signed (dropWhile is_space s);
          hex = (prefix ''0x'' u \<or> prefix ''0X'' u);
          ds = (if hex then takeWhile is_hex (drop 2 u) else takeWhile is_digit u);
          n = (if hex then hex_val ds else dec_val ds)
      in if ds = [] then NaN else Num (if neg then - of_nat n else of_nat n))"

text \<open>The integer a number stands for as an index (\<^verbatim>\<open>ToIntegerOrInfinity\<close>), relative to a
  length, as \<^verbatim>\<open>Array.prototype.slice\<close> clamps it: a negative index counts from the end.\<close>

definition trunc :: "rat \<Rightarrow> int" where
  "trunc a = (if a \<ge> 0 then \<lfloor>a\<rfloor> else \<lceil>a\<rceil>)"

fun relIndex :: "jsnum \<Rightarrow> nat \<Rightarrow> nat" where
  "relIndex NaN len = 0"
| "relIndex NegInf len = 0"
| "relIndex PosInf len = len"
| "relIndex (Num a) len =
     (if trunc a < 0 then nat (max (int len + trunc a) 0) else nat (min (trunc a) (int len)))"

text \<open>\<^verbatim>\<open>xs.slice(start, end)\<close>\<close>

definition slice :: "'a list \<Rightarrow> jsnum \<Rightarrow> jsnum \<Rightarrow> 'a list" where
  "slice xs start end' =
     (let k = relIndex start (length xs); final = relIndex end' (length xs)
      in take (final - k) (drop k xs))"

text \<open>\<^verbatim>\<open>xs.sort(cmp)\<close>.  The comparator returns a number; a positive result puts its second
  argument first, and \<^verbatim>\<open>NaN\<close> counts as zero.  The language fixes the result for a consistent
  comparator: the stable sort, which insertion from the right computes.  For an
  inconsistent comparator the order is left to the implementation, and this is one
  outcome.\<close>

definition positive :: "jsnum \<Rightarrow> bool" where
  "positive v \<longleftrightarrow> js_sign v > 0"

fun sort_insert :: "('a \<Rightarrow> 'a \<Rightarrow> jsnum) \<Rightarrow> 'a \<Rightarrow> 'a list \<Rightarrow> 'a list" where
  "sort_insert cmp x [] = [x]"
| "sort_insert cmp x (y # ys) =
     (if positive (cmp x y) then y # sort_insert cmp x ys else x # y # ys)"

definition js_sort :: "('a \<Rightarrow> 'a \<Rightarrow> jsnum) \<Rightarrow> 'a list \<Rightarrow> 'a list" where
  "js_sort cmp xs = foldr (sort_insert cmp) xs []"

subsection \<open>CSV parsing\<close>

text \<open>A parsed row is an object: its properties in the order they were first assigned, each
  holding a string or \<^verbatim>\<open>undefined\<close>.  (JavaScript enumerates keys that are array indices
  first; nothing below depends on the order of the keys of a row.)\<close>

type_synonym row = "(string \<times> string option) list"

text \<open>\<^verbatim>\<open>row.k\<close>: \<^verbatim>\<open>undefined\<close> when the row has no such property.\<close>

definition field :: "row \<Rightarrow> string \<Rightarrow> string option" where
  "field r k = (case map_of r k of None \<Rightarrow> None | Some v \<Rightarrow> v)"

text \<open>\<^verbatim>\<open>values[index]\<close>: \<^verbatim>\<open>undefined\<close> past the end.\<close>

definition elem :: "'a list \<Rightarrow> nat \<Rightarrow> 'a option" where
  "elem xs i = (if i < length xs then Some (xs ! i) else None)"

text \<open>\<^verbatim>\<open>csvText.trim().split('\n')\<close>, the \<^verbatim>\<open>lines\<close> of \<^verbatim>\<open>parseCSV\<close>.\<close>

definition csv_lines :: "string \<Rightarrow> string list" where
  "csv_lines csvText = split (CHR 0x0A) (trim csvText)"

text \<open>\<^verbatim>\<open>line.split(',').map(v => v.trim())\<close>\<close>

definition csv_fields :: "string \<Rightarrow> string list" where
  "csv_fields line = map trim (split (CHR '','') line)"

text \<open>The body of the loop: \<^verbatim>\<open>headers.forEach((header, index) => row[header] = values[index])\<close>
  on an empty row.\<close>

definition csv_row :: "string list \<Rightarrow> string list \<Rightarrow> row" where
  "csv_row headers values =
     fold (\<lambda>(header, index) row. AList.update header (elem values index) row)
       (zip headers [0 ..< length headers]) []"

definition parseCSV :: "string \<Rightarrow> row list" where
  "parseCSV csvText =
     (let lines = csv_lines csvText in
      if length lines < 2 then []
      else
        let headers = csv_fields (lines ! 0)
        in map (\<lambda>line. csv_row headers (csv_fields line)) (tl lines))"

subsection \<open>Trade validation\<close>

record validation =
  valid :: bool
  errors :: "string list"

text \<open>\<^verbatim>\<open>validateTrade\<close>: six checks in a row, each pushing one message.\<close>

definition validateTrade :: "row \<Rightarrow> validation" where
  "validateTrade trade =
     (let errs =
        (if \<not> truthy (field trade ''trade_id'') then [''trade_id is required''] else []) @
        (if \<not> truthy (field trade ''trade_date'') then [''trade_date is required''] else []) @
        (if \<not> truthy (field trade ''instrument'') then [''instrument is required''] else []) @
        (if (case field trade ''side'' of
               None \<Rightarrow> True
             | Some s \<Rightarrow> s = [] \<or> toUpperCase s \<notin> set [''BUY'', ''SELL''])
         then [''side must be BUY or SELL''] else []) @
        (if \<not> truthy (field trade ''quantity'') \<or> isNaN (parseFloatV (field trade ''quantity''))
         then [''quantity must be a valid number''] else []) @
        (if \<not> truthy (field trade ''trade_price'') \<or> isNaN (parseFloatV (field trade ''trade_price''))
         then [''trade_price must be a valid number''] else [])
      in \<lparr>valid = (length errs = 0), errors = errs\<rparr>)"

subsection \<open>The store\<close>

record trade =
  trade_id :: string
  trade_date :: string
  trader :: string
  instrument :: string
  side :: string
  quantity :: jsnum
  trade_price :: jsnum
  currency :: string

text \<open>A market price is stored unvalidated: a column the CSV lacks leaves its field
  \<^verbatim>\<open>undefined\<close>, and \<open>close_price\<close> may be \<^verbatim>\<open>NaN\<close>.\<close>

record market_price =
  price_instrument :: "string option"
  price_date :: "string option"
  close_price :: jsnum

text \<open>Modelled from the spec: \<^verbatim>\<open>kv_store.tsx\<close> is not among the sources.  The store is the
  collaborator \<^verbatim>\<open>get(key) -> value | absent\<close>, \<^verbatim>\<open>set(key, value)\<close> over the two keys
  \<^verbatim>\<open>'trades'\<close> and \<^verbatim>\<open>'market_prices'\<close>; \<^const>\<open>None\<close> is an absent key.  \<^verbatim>\<open>get\<close> returns
  what was last \<^verbatim>\<open>set\<close>, numbers included.\<close>

record store =
  kv_trades :: "trade list option"
  kv_market_prices :: "market_price list option"

text \<open>\<^verbatim>\<open>await kv.get('trades') || []\<close> and \<^verbatim>\<open>await kv.get('market_prices') || []\<close>\<close>

definition getTrades :: "store \<Rightarrow> trade list" where
  "getTrades s = (case kv_trades s of None \<Rightarrow> [] | Some ts \<Rightarrow> ts)"

definition getMarketPrices :: "store \<Rightarrow> market_price list" where
  "getMarketPrices s = (case kv_market_prices s of None \<Rightarrow> [] | Some ps \<Rightarrow> ps)"

text \<open>\<^verbatim>\<open>await kv.set('trades', v)\<close> and \<^verbatim>\<open>await kv.set('market_prices', v)\<close>\<close>

definition setTrades :: "trade list \<Rightarrow> store \<Rightarrow> store" where
  "setTrades v s = s\<lparr>kv_trades := Some v\<rparr>"

definition setMarketPrices :: "market_price list \<Rightarrow> store \<Rightarrow> store" where
  "setMarketPrices v s = s\<lparr>kv_market_prices := Some v\<rparr>"

datatype http_error = HttpError nat string

subsection \<open>Trade upload\<close>

text \<open>A required field of a row that passed validation is a string; the empty string
  stands for the \<^verbatim>\<open>undefined\<close> that validation has excluded.\<close>

definition required :: "row \<Rightarrow> string \<Rightarrow> string" where
  "required r k = (case field r k of None \<Rightarrow> [] | Some v \<Rightarrow> v)"

text \<open>The object pushed onto \<^verbatim>\<open>validTrades\<close>.\<close>

definition normalizeTrade :: "row \<Rightarrow> trade" where
  "normalizeTrade row =
     \<lparr>trade_id = required row ''trade_id'',
      trade_date = required row ''trade_date'',
      trader = orElse (field row ''trader'') ''Unknown'',
      instrument = required row ''instrument'',
      side = toUpperCase (required row ''side''),
      quantity = parseFloatV (field row ''quantity''),
      trade_price = parseFloatV (field row ''trade_price''),
      currency = orElse (field row ''currency'') ''USD''\<rparr>"

type_synonym invalid_trade = "row \<times> string list"

text \<open>One turn of the loop over the rows, on \<^verbatim>\<open>(validTrades, invalidTrades)\<close>.\<close>

definition uploadStep :: "row \<Rightarrow> trade list \<times> invalid_trade list \<Rightarrow> trade list \<times> invalid_trade list" where
  "uploadStep row acc =
     (let validation = validateTrade row in
      if valid validation then (fst acc @ [normalizeTrade row], snd acc)
      else (fst acc, snd acc @ [(row, errors validation)]))"

text \<open>The response body; its \<^verbatim>\<open>message\<close>, a text built from \<open>validCount\<close>, is left out.\<close>

record upload_result =
  success :: bool
  validCount :: nat
  invalidCount :: nat
  invalidTrades :: "invalid_trade list"

text \<open>\<^verbatim>\<open>POST /trades/upload\<close>.  The request carries the text of the file, or no file.\<close>

definition uploadTrades :: "string option \<Rightarrow> store \<Rightarrow> (http_error + upload_result) \<times> store" where
  "uploadTrades file s =
     (case file of
        None \<Rightarrow> (Inl (HttpError 400 ''No file provided''), s)
      | Some csvText \<Rightarrow>
          let rows = parseCSV csvText in
          if length rows = 0 then (Inl (HttpError 400 ''CSV file is empty or invalid''), s)
          else
            let (validTrades, invalids) = fold uploadStep rows ([], []);
                s' = (if length validTrades > 0
                      then setTrades (getTrades s @ validTrades) s else s)
            in (Inr \<lparr>success = True,
                      validCount = length validTrades,
                      invalidCount = length invalids,
                      invalidTrades = slice invalids (Num 0) (Num 10)\<rparr>, s'))"

subsection \<open>Market price upload\<close>

definition priceOfRow :: "row \<Rightarrow> market_price" where
  "priceOfRow row =
     \<lparr>price_instrument = field row ''instrument'',
      price_date = field row ''price_date'',
      close_price = parseFloatV (field row ''close_price'')\<rparr>"

record price_upload_result =
  price_success :: bool
  count :: nat

text \<open>\<^verbatim>\<open>POST /market-prices/upload\<close>\<close>

definition uploadMarketPrices ::
  "string option \<Rightarrow> store \<Rightarrow> (http_error + price_upload_result) \<times> store" where
  "uploadMarketPrices file s =
     (case file of
        None \<Rightarrow> (Inl (HttpError 400 ''No file provided''), s)
      | Some csvText \<Rightarrow>
          let rows = parseCSV csvText in
          if length rows = 0 then (Inl (HttpError 400 ''CSV file is empty or invalid''), s)
          else
            let prices = map priceOfRow rows
            in (Inr \<lparr>price_success = True, count = length prices\<rparr>, setMarketPrices prices s))"

subsection \<open>Trade listing\<close>

text \<open>\<^verbatim>\<open>if (q) x = f(q, x)\<close> for a query parameter \<open>q\<close>: absent and empty parameters are falsy.\<close>

definition whenGiven :: "string option \<Rightarrow> (string \<Rightarrow> 'a \<Rightarrow> 'a) \<Rightarrow> 'a \<Rightarrow> 'a" where
  "whenGiven q f x = (case q of None \<Rightarrow> x | Some v \<Rightarrow> if v = [] then x else f v x)"

text \<open>The four filters of \<^verbatim>\<open>GET /trades\<close>, in the order of the source.\<close>

definition listFilter ::
  "string option \<Rightarrow> string option \<Rightarrow> string option \<Rightarrow> string option \<Rightarrow> trade list \<Rightarrow> trade list" where
  "listFilter fromDate toDate instr trdr ts =
     whenGiven trdr (\<lambda>v. filter (\<lambda>t. str_includes (toLowerCase (trader t)) (toLowerCase v)))
       (whenGiven instr (\<lambda>v. filter (\<lambda>t. str_includes (toLowerCase (instrument t)) (toLowerCase v)))
         (whenGiven toDate (\<lambda>v. filter (\<lambda>t. trade_date t \<le> v))
           (whenGiven fromDate (\<lambda>v. filter (\<lambda>t. trade_date t \<ge> v)) ts)))"

text \<open>The comparator of the sort.  \<open>localeCompare\<close> is the platform's collation, returning
  a negative, zero or positive integer.\<close>

definition tradeCompare :: "(string \<Rightarrow> string \<Rightarrow> int) \<Rightarrow> trade \<Rightarrow> trade \<Rightarrow> jsnum" where
  "tradeCompare localeCompare a b =
     (let aNum = parseInt (stripNonDigits (trade_id a));
          bNum = parseInt (stripNonDigits (trade_id b))
      in if \<not> isNaN aNum \<and> \<not> isNaN bNum then js_sub aNum bNum
         else Num (of_int (localeCompare (trade_id a) (trade_id b))))"

text \<open>The filtered trades after the sort, before pagination.\<close>

definition listSorted ::
  "(string \<Rightarrow> string \<Rightarrow> int) \<Rightarrow> string option \<Rightarrow> string option \<Rightarrow> string option \<Rightarrow>
     string option \<Rightarrow> store \<Rightarrow> trade list" where
  "listSorted localeCompare fromDate toDate instr trdr s =
     js_sort (tradeCompare localeCompare) (listFilter fromDate toDate instr trdr (getTrades s))"

record pagination =
  page :: jsnum
  limit :: jsnum
  total :: nat
  totalPages :: jsnum

record list_result =
  trades :: "trade list"
  pagination :: pagination

text \<open>\<^verbatim>\<open>GET /trades\<close>.  \<open>pageQ\<close> and \<open>limitQ\<close> are the query parameters \<^verbatim>\<open>page\<close> and
  \<^verbatim>\<open>limit\<close> as sent.\<close>

definition listTrades ::
  "(string \<Rightarrow> string \<Rightarrow> int) \<Rightarrow> string option \<Rightarrow> string option \<Rightarrow> string option \<Rightarrow>
     string option \<Rightarrow> string option \<Rightarrow> string option \<Rightarrow> store \<Rightarrow> list_result" where
  "listTrades localeCompare fromDate toDate instr trdr pageQ limitQ s =
     (let pageN = parseInt (orElse pageQ ''1'');
          limitN = parseInt (orElse limitQ ''50'');
          sortedTrades = listSorted localeCompare fromDate toDate instr trdr s;
          totalN = length sortedTrades;
          start = js_mul (js_sub pageN (Num 1)) limitN;
          end' = js_add start limitN;
          paginatedTrades = slice sortedTrades start end'
      in \<lparr>trades = paginatedTrades,
          pagination = \<lparr>page = pageN, limit = limitN, total = totalN,
                         totalPages = js_ceil (js_div (Num (of_nat totalN)) limitN)\<rparr>\<rparr>)"

subsection \<open>Valuation\<close>

text \<open>\<^verbatim>\<open>new Date(v).getTime()\<close>: \<open>parseDate\<close> is the platform's date parser, giving the
  milliseconds of a date it accepts; an invalid date, and \<^verbatim>\<open>undefined\<close>, have time
  \<^verbatim>\<open>NaN\<close>.\<close>

definition getTime :: "(string \<Rightarrow> int option) \<Rightarrow> string option \<Rightarrow> jsnum" where
  "getTime parseDate v =
     (case v of
        None \<Rightarrow> NaN
      | Some d \<Rightarrow> (case parseDate d of None \<Rightarrow> NaN | Some ms \<Rightarrow> Num (of_int ms)))"

text \<open>The three filters of \<^verbatim>\<open>GET /pnl\<close>.\<close>

definition pnlFilter ::
  "string option \<Rightarrow> string option \<Rightarrow> string option \<Rightarrow> trade list \<Rightarrow> trade list" where
  "pnlFilter fromDate toDate instr ts =
     whenGiven instr (\<lambda>v. filter (\<lambda>t. instrument t = v))
       (whenGiven toDate (\<lambda>v. filter (\<lambda>t. trade_date t \<le> v))
         (whenGiven fromDate (\<lambda>v. filter (\<lambda>t. trade_date t \<ge> v)) ts))"

text \<open>\<^verbatim>\<open>instrumentPrices\<close>: the prices of the trade's instrument, latest first.\<close>

definition matchingPrices :: "market_price list \<Rightarrow> trade \<Rightarrow> market_price list" where
  "matchingPrices marketPrices trade =
     filter (\<lambda>p. price_instrument p = Some (instrument trade)) marketPrices"

definition instrumentPrices ::
  "(string \<Rightarrow> int option) \<Rightarrow> market_price list \<Rightarrow> trade \<Rightarrow> market_price list" where
  "instrumentPrices parseDate marketPrices trade =
     js_sort (\<lambda>a b. js_sub (getTime parseDate (price_date b)) (getTime parseDate (price_date a)))
       (matchingPrices marketPrices trade)"

text \<open>\<^verbatim>\<open>instrumentPrices[0]\<close>\<close>

definition latestPrice ::
  "(string \<Rightarrow> int option) \<Rightarrow> market_price list \<Rightarrow> trade \<Rightarrow> market_price option" where
  "latestPrice parseDate marketPrices trade = elem (instrumentPrices parseDate marketPrices trade) 0"

record valued_trade = trade +
  market_price :: jsnum
  mtm :: jsnum

text \<open>The state of the valuation loop.  \<open>dailyPnL\<close> is an object: its keys in the order
  they were first assigned.\<close>

record pnl_acc =
  acc_totalPnL :: jsnum
  acc_dailyPnL :: "(string \<times> jsnum) list"
  acc_tradesPnL :: "valued_trade list"

text \<open>The body of the loop \<^verbatim>\<open>for (const trade of filteredTrades)\<close>.\<close>

definition pnlStep ::
  "(string \<Rightarrow> int option) \<Rightarrow> market_price list \<Rightarrow> trade \<Rightarrow> pnl_acc \<Rightarrow> pnl_acc" where
  "pnlStep parseDate marketPrices trade acc =
     (case latestPrice parseDate marketPrices trade of
        None \<Rightarrow> acc
      | Some latest \<Rightarrow>
          let marketPrice = parseFloatN (close_price latest);
              tradePrice = parseFloatN (trade_price trade);
              qty = parseFloatN (quantity trade);
              mtmV = js_mul (js_sub marketPrice tradePrice) qty;
              date = trade_date trade
          in \<lparr>acc_totalPnL = js_add (acc_totalPnL acc) mtmV,
              acc_dailyPnL =
                AList.update date (js_add (numOrZero (map_of (acc_dailyPnL acc) date)) mtmV)
                  (acc_dailyPnL acc),
              acc_tradesPnL =
                acc_tradesPnL acc @ [trade.extend trade (valued_trade.fields marketPrice mtmV)]\<rparr>)"

text \<open>\<^verbatim>\<open>Object.entries\<close>: keys that are array indices come first, in numeric order, the others
  follow in the order they were added.\<close>

definition is_array_index :: "string \<Rightarrow> bool" where
  "is_array_index k \<longleftrightarrow>
     k \<noteq> [] \<and> list_all is_digit k \<and> (k = ''0'' \<or> take 1 k \<noteq> ''0'') \<and> dec_val k < 4294967295"

definition entries :: "(string \<times> 'v) list \<Rightarrow> (string \<times> 'v) list" where
  "entries obj =
     sort_key (\<lambda>e. dec_val (fst e)) (filter (\<lambda>e. is_array_index (fst e)) obj) @
     filter (\<lambda>e. \<not> is_array_index (fst e)) obj"

record pnl_result =
  totalPnL :: jsnum
  dailyPnL :: "(string \<times> jsnum) list"
  tradeCount :: nat
  valuedTradeCount :: nat
  tradesPnL :: "valued_trade list"

text \<open>\<^verbatim>\<open>GET /pnl\<close>.  An entry of \<open>dailyPnL\<close> is the pair \<^verbatim>\<open>{date, pnl}\<close>.\<close>

definition computePnL ::
  "(string \<Rightarrow> int option) \<Rightarrow> string option \<Rightarrow> string option \<Rightarrow> string option \<Rightarrow> store \<Rightarrow> pnl_result" where
  "computePnL parseDate fromDate toDate instr s =
     (let allTrades = getTrades s;
          marketPrices = getMarketPrices s;
          filteredTrades = pnlFilter fromDate toDate instr allTrades;
          acc = fold (pnlStep parseDate marketPrices) filteredTrades
                  \<lparr>acc_totalPnL = Num 0, acc_dailyPnL = [], acc_tradesPnL = []\<rparr>;
          dailyPnLArray =
            js_sort (\<lambda>a b. js_sub (getTime parseDate (Some (fst a))) (getTime parseDate (Some (fst b))))
              (entries (acc_dailyPnL acc))
      in \<lparr>totalPnL = acc_totalPnL acc,
          dailyPnL = dailyPnLArray,
          tradeCount = length filteredTrades,
          valuedTradeCount = length (acc_tradesPnL acc),
          tradesPnL = acc_tradesPnL acc\<rparr>)"

subsection \<open>Instances of the platform parameters\<close>

text \<open>Dates of the form \<^verbatim>\<open>YYYY-MM-DD\<close>, the form of the CSV formats, as milliseconds since
  1970-01-01 UTC; this is the date parser of the examples.\<close>

definition daysInMonth :: "int \<Rightarrow> int \<Rightarrow> int" where
  "daysInMonth y m =
     (if m = 2 then (if y mod 4 = 0 \<and> (y mod 100 \<noteq> 0 \<or> y mod 400 = 0) then 29 else 28)
      else if m = 4 \<or> m = 6 \<or> m = 9 \<or> m = 11 then 30 else 31)"

definition daysFromCivil :: "int \<Rightarrow> int \<Rightarrow> int \<Rightarrow> int" where
  "daysFromCivil y m d =
     (let y' = (if m \<le> 2 then y - 1 else y);
          era = y' div 400;
          yoe = y' - era * 400;
          doy = (153 * (if m > 2 then m - 3 else m + 9) + 2) div 5 + d - 1;
          doe = yoe * 365 + yoe div 4 - yoe div 100 + doy
      in era * 146097 + doe - 719468)"

definition isoDate :: "string \<Rightarrow> int option" where
  "isoDate s =
     (let y = int (dec_val (take 4 s)); m = int (dec_val (take 2 (drop 5 s)));
          d = int (dec_val (take 2 (drop 8 s)))
      in if length s = 10 \<and> list_all is_digit (take 4 s) \<and> s ! 4 = CHR ''-''
            \<and> list_all is_digit (take 2 (drop 5 s)) \<and> s ! 7 = CHR ''-''
            \<and> list_all is_digit (take 2 (drop 8 s))
            \<and> 1 \<le> m \<and> m \<le> 12 \<and> 1 \<le> d \<and> d \<le> daysInMonth y m
         then Some (daysFromCivil y m d * 86400000) else None)"

text \<open>Comparison by character code; this is the collation of the examples.\<close>

definition codeCompare :: "string \<Rightarrow> string \<Rightarrow> int" where
  "codeCompare a b = (if a < b then - 1 else if a = b then 0 else 1)"

section \<open>Notions used to state the properties\<close>

text \<open>The definitions of this section are not part of the program; they name what the
  statements below compare the program with.\<close>

text \<open>A number that is neither \<^verbatim>\<open>NaN\<close> nor an infinity.\<close>

definition isFinite :: "jsnum \<Rightarrow> bool" where
  "isFinite v = (case v of Num a \<Rightarrow> True | _ \<Rightarrow> False)"

text \<open>A field is present when it holds a non-empty string.\<close>

definition present :: "row \<Rightarrow> string \<Rightarrow> bool" where
  "present r k \<longleftrightarrow> (case field r k of None \<Rightarrow> False | Some v \<Rightarrow> v \<noteq> [])"

text \<open>The six rules of trade validation, each with its message: what a row must satisfy.\<close>

definition tradeRules :: "(string \<times> (row \<Rightarrow> bool)) list" where
  "tradeRules =
     [(''trade_id is required'', \<lambda>r. present r ''trade_id''),
      (''trade_date is required'', \<lambda>r. present r ''trade_date''),
      (''instrument is required'', \<lambda>r. present r ''instrument''),
      (''side must be BUY or SELL'',
         \<lambda>r. case field r ''side'' of
                None \<Rightarrow> False
              | Some s \<Rightarrow> toUpperCase s = ''BUY'' \<or> toUpperCase s = ''SELL''),
      (''quantity must be a valid number'',
         \<lambda>r. present r ''quantity'' \<and> parseFloatV (field r ''quantity'') \<noteq> NaN),
      (''trade_price must be a valid number'',
         \<lambda>r. present r ''trade_price'' \<and> parseFloatV (field r ''trade_price'') \<noteq> NaN)]"

text \<open>A condition on a query parameter that binds only when the parameter is given, that
  is, sent and not empty.\<close>

definition unlessGiven :: "string option \<Rightarrow> (string \<Rightarrow> bool) \<Rightarrow> bool" where
  "unlessGiven q P \<longleftrightarrow> (case q of None \<Rightarrow> True | Some v \<Rightarrow> v = [] \<or> P v)"





text \<open>What the valuation loop appends for one trade: nothing, or the trade with the close
  price of its latest price and the mark-to-market value.\<close>

definition valuedTrades ::
  "(string \<Rightarrow> int option) \<Rightarrow> market_price list \<Rightarrow> trade \<Rightarrow> valued_trade list" where
  "valuedTrades parseDate marketPrices t =
     (case latestPrice parseDate marketPrices t of
        None \<Rightarrow> []
      | Some p \<Rightarrow>
          [trade.extend t (valued_trade.fields (close_price p)
             (js_mul (js_sub (close_price p) (trade_price t)) (quantity t)))])"

text \<open>The sum of the mark-to-market values of valued trades, added in their order.\<close>

definition sumMtm :: "valued_trade list \<Rightarrow> jsnum" where
  "sumMtm vs = foldl js_add (Num 0) (map mtm vs)"

section \<open>Sample data\<close>

definition sampleTradesCsv :: string where
  "sampleTradesCsv = ''trade_id,trade_date,trader,instrument,side,quantity,trade_price,currency\<newline>T001,2025-01-15,,BRENT,Sell,500,80,\<newline>T2,2025-01-15,John,WTI-CRUDE,buy,1000,75.50,USD\<newline>T003,2025-01-16,Ann,GAS,hold,abc,3\<newline>T10,2025-01-16,Ann,WTI-CRUDE,SELL,200,70,EUR''"

definition sampleTradeRows :: "row list" where
  "sampleTradeRows =
     [[(''trade_id'', Some ''T001''), (''trade_date'', Some ''2025-01-15''), (''trader'', Some ''''),
       (''instrument'', Some ''BRENT''), (''side'', Some ''Sell''), (''quantity'', Some ''500''),
       (''trade_price'', Some ''80''), (''currency'', Some '''')],
      [(''trade_id'', Some ''T2''), (''trade_date'', Some ''2025-01-15''), (''trader'', Some ''John''),
       (''instrument'', Some ''WTI-CRUDE''), (''side'', Some ''buy''), (''quantity'', Some ''1000''),
       (''trade_price'', Some ''75.50''), (''currency'', Some ''USD'')],
      [(''trade_id'', Some ''T003''), (''trade_date'', Some ''2025-01-16''), (''trader'', Some ''Ann''),
       (''instrument'', Some ''GAS''), (''side'', Some ''hold''), (''quantity'', Some ''abc''),
       (''trade_price'', Some ''3''), (''currency'', None)],
      [(''trade_id'', Some ''T10''), (''trade_date'', Some ''2025-01-16''), (''trader'', Some ''Ann''),
       (''instrument'', Some ''WTI-CRUDE''), (''side'', Some ''SELL''), (''quantity'', Some ''200''),
       (''trade_price'', Some ''70''), (''currency'', Some ''EUR'')]]"

definition rejectedTradesCsv :: string where
  "rejectedTradesCsv = ''trade_id,side,quantity\<newline>T003,hold,abc\<newline>,BUY,5''"

definition rejectedTradeRows :: "row list" where
  "rejectedTradeRows =
     [[(''trade_id'', Some ''T003''), (''side'', Some ''hold''), (''quantity'', Some ''abc'')],
      [(''trade_id'', Some ''''), (''side'', Some ''BUY''), (''quantity'', Some ''5'')]]"

definition samplePricesCsv :: string where
  "samplePricesCsv = ''instrument,price_date,close_price\<newline>WTI-CRUDE,2025-01-14,74\<newline>WTI-CRUDE,2025-01-20,76.00\<newline>BRENT,2025-01-20,''"

definition samplePriceRows :: "row list" where
  "samplePriceRows =
     [[(''instrument'', Some ''WTI-CRUDE''), (''price_date'', Some ''2025-01-14''),
       (''close_price'', Some ''74'')],
      [(''instrument'', Some ''WTI-CRUDE''), (''price_date'', Some ''2025-01-20''),
       (''close_price'', Some ''76.00'')],
      [(''instrument'', Some ''BRENT''), (''price_date'', Some ''2025-01-20''),
       (''close_price'', Some '''')]]"

definition infRow :: row where
  "infRow =
     [(''trade_id'', Some ''T1''), (''trade_date'', Some ''2025-01-15''), (''trader'', Some ''John''),
      (''instrument'', Some ''WTI-CRUDE''), (''side'', Some ''BUY''), (''quantity'', Some ''Infinity''),
      (''trade_price'', Some ''75.50''), (''currency'', Some ''USD'')]"

definition badRow :: row where
  "badRow =
     [(''trade_id'', Some ''T3''), (''trade_date'', Some ''''), (''trader'', Some ''Ann''),
      (''instrument'', Some ''GAS''), (''side'', Some ''hold''), (''quantity'', Some ''abc''),
      (''trade_price'', Some ''3''), (''currency'', None)]"

definition emptyStore :: store where
  "emptyStore = \<lparr>kv_trades = None, kv_market_prices = None\<rparr>"

definition oldTrade :: trade where
  "oldTrade =
     \<lparr>trade_id = ''T000'', trade_date = ''2025-01-10'', trader = ''Eve'', instrument = ''GAS'',
      side = ''BUY'', quantity = Num 10, trade_price = Num 3, currency = ''USD''\<rparr>"

definition oldPrice :: market_price where
  "oldPrice =
     \<lparr>price_instrument = Some ''GAS'', price_date = Some ''2025-01-09'', close_price = Num 4\<rparr>"

definition oldStore :: store where
  "oldStore = \<lparr>kv_trades = Some [oldTrade], kv_market_prices = Some [oldPrice]\<rparr>"

definition wtiTrade :: trade where
  "wtiTrade =
     \<lparr>trade_id = ''T2'', trade_date = ''2025-01-15'', trader = ''John'',
      instrument = ''WTI-CRUDE'', side = ''BUY'', quantity = Num 1000,
      trade_price = Num (151 / 2), currency = ''USD''\<rparr>"

definition brentTrade :: trade where
  "brentTrade =
     \<lparr>trade_id = ''T001'', trade_date = ''2025-01-15'', trader = ''Unknown'',
      instrument = ''BRENT'', side = ''SELL'', quantity = Num 500, trade_price = Num 80,
      currency = ''USD''\<rparr>"

definition sellTrade :: trade where
  "sellTrade =
     \<lparr>trade_id = ''T10'', trade_date = ''2025-01-16'', trader = ''Ann'',
      instrument = ''WTI-CRUDE'', side = ''SELL'', quantity = Num 200, trade_price = Num 70,
      currency = ''EUR''\<rparr>"

definition spreadTrade :: trade where
  "spreadTrade =
     \<lparr>trade_id = ''T10'', trade_date = ''2025-01-16'', trader = ''Ann'',
      instrument = ''BRENT-WTI-SPREAD'', side = ''SELL'', quantity = Num 200,
      trade_price = Num 4, currency = ''USD''\<rparr>"

definition gasTrade :: trade where
  "gasTrade =
     \<lparr>trade_id = ''GAS'', trade_date = ''2025-02-01'', trader = ''Eve'', instrument = ''GAS'',
      side = ''BUY'', quantity = Num 10, trade_price = Num 3, currency = ''USD''\<rparr>"

definition wtiEarly :: market_price where
  "wtiEarly =
     \<lparr>price_instrument = Some ''WTI-CRUDE'', price_date = Some ''2025-01-14'', close_price = Num 74\<rparr>"

definition wtiLate :: market_price where
  "wtiLate =
     \<lparr>price_instrument = Some ''WTI-CRUDE'', price_date = Some ''2025-01-20'', close_price = Num 76\<rparr>"

definition brentNoClose :: market_price where
  "brentNoClose =
     \<lparr>price_instrument = Some ''BRENT'', price_date = Some ''2025-01-20'', close_price = NaN\<rparr>"

definition deskStore :: store where
  "deskStore =
     \<lparr>kv_trades = Some [spreadTrade, gasTrade, wtiTrade],
      kv_market_prices = Some [wtiEarly, wtiLate, oldPrice]\<rparr>"

definition fullStore :: store where
  "fullStore = \<lparr>kv_trades = Some (replicate 45 oldTrade), kv_market_prices = None\<rparr>"

text \<open>The store after the sample trades and the sample prices have been uploaded into an
  empty store.\<close>

definition uploadedStore :: store where
  "uploadedStore =
     snd (uploadMarketPrices (Some samplePricesCsv) (snd (uploadTrades (Some sampleTradesCsv) emptyStore)))"

section \<open>Properties\<close>

subsection \<open>CSV parsing\<close>

text \<open>Adding a header on the right is one more assignment to the row.\<close>

lemma csv_row_snoc:
  "csv_row (hs @ [h]) vs = AList.update h (elem vs (length hs)) (csv_row hs vs)"
  by (simp add: csv_row_def)

lemma csv_row_keys: "fst ` set (csv_row hs vs) = set hs"
  by (induction hs rule: rev_induct) (auto simp: csv_row_snoc dom_update csv_row_def)

lemma csv_row_distinct: "distinct (map fst (csv_row hs vs))"
  by (induction hs rule: rev_induct) (auto simp: csv_row_snoc distinct_update csv_row_def)

lemma csv_row_lookup:
  "j < length hs \<Longrightarrow> hs ! j \<notin> set (drop (Suc j) hs) \<Longrightarrow>
     map_of (csv_row hs vs) (hs ! j) = Some (elem vs j)"
proof (induction hs rule: rev_induct)
  case Nil
  then show ?case by simp
next
  case (snoc h hs)
  show ?case
  proof (cases "j = length hs")
    case True
    then show ?thesis by (simp add: csv_row_snoc update_conv')
  next
    case False
    with snoc.prems have j: "j < length hs" by simp
    with snoc.prems have "hs ! j \<noteq> h" "hs ! j \<notin> set (drop (Suc j) hs)"
      by (auto simp: nth_append)
    with snoc.IH j show ?thesis
      by (simp add: csv_row_snoc update_conv' nth_append)
  qed
qed

lemma csv_row_field:
  "j < length hs \<Longrightarrow> hs ! j \<notin> set (drop (Suc j) hs) \<Longrightarrow> field (csv_row hs vs) (hs ! j) = elem vs j"
  by (simp add: field_def csv_row_lookup)

text \<open>
  C8.  \<^verbatim>\<open>lines\<close> are the lines of the trimmed text.  With fewer than two lines \<^verbatim>\<open>parseCSV\<close>
  returns no row.  With a header line and at least one data line it returns one row for
  each line after the first; the keys of row \<open>i\<close> are exactly the trimmed header fields,
  each once, and the header at position \<open>j\<close> maps to the trimmed value at position \<open>j\<close> of
  that line, or to \<^verbatim>\<open>undefined\<close> when the line has no such position.  (A header name that
  occurs again further right holds the value of its last position, so the positional
  reading is stated for the last occurrence of a name.)
\<close>

theorem parseCSV_rows:
  "(length (csv_lines csvText) < 2 \<longrightarrow> parseCSV csvText = []) \<and>
   (2 \<le> length (csv_lines csvText) \<longrightarrow>
      length (parseCSV csvText) = length (csv_lines csvText) - 1 \<and>
      (i < length (csv_lines csvText) - 1 \<longrightarrow>
         fst ` set (parseCSV csvText ! i) = set (csv_fields (csv_lines csvText ! 0)) \<and>
         distinct (map fst (parseCSV csvText ! i)) \<and>
         (j < length (csv_fields (csv_lines csvText ! 0)) \<and>
          csv_fields (csv_lines csvText ! 0) ! j
              \<notin> set (drop (Suc j) (csv_fields (csv_lines csvText ! 0))) \<longrightarrow>
            field (parseCSV csvText ! i) (csv_fields (csv_lines csvText ! 0) ! j) =
              (if j < length (csv_fields (csv_lines csvText ! Suc i))
               then Some (csv_fields (csv_lines csvText ! Suc i) ! j) else None))))"
proof -
  have long: "parseCSV csvText =
      map (\<lambda>line. csv_row (csv_fields (csv_lines csvText ! 0)) (csv_fields line)) (tl (csv_lines csvText))"
    if "2 \<le> length (csv_lines csvText)"
    using that by (simp add: parseCSV_def Let_def)
  have nth: "parseCSV csvText ! i =
        csv_row (csv_fields (csv_lines csvText ! 0)) (csv_fields (csv_lines csvText ! Suc i))"
    if "2 \<le> length (csv_lines csvText)" "i < length (csv_lines csvText) - 1"
    using that by (simp add: long nth_tl)
  have short: "length (csv_lines csvText) < 2 \<Longrightarrow> parseCSV csvText = []"
    by (simp add: parseCSV_def)
  show ?thesis
  proof (intro conjI impI)
    assume "length (csv_lines csvText) < 2"
    then show "parseCSV csvText = []" by (rule short)
  next
    assume "2 \<le> length (csv_lines csvText)"
    then show "length (parseCSV csvText) = length (csv_lines csvText) - 1"
      by (simp add: long)
  next
    assume two: "2 \<le> length (csv_lines csvText)" and i: "i < length (csv_lines csvText) - 1"
    show "fst ` set (parseCSV csvText ! i) = set (csv_fields (csv_lines csvText ! 0))"
      by (simp add: nth [OF two i] csv_row_keys)
    show "distinct (map fst (parseCSV csvText ! i))"
      by (simp add: nth [OF two i] csv_row_distinct)
    assume "j < length (csv_fields (csv_lines csvText ! 0)) \<and>
          csv_fields (csv_lines csvText ! 0) ! j
              \<notin> set (drop (Suc j) (csv_fields (csv_lines csvText ! 0)))"
    then show "field (parseCSV csvText ! i) (csv_fields (csv_lines csvText ! 0) ! j) =
              (if j < length (csv_fields (csv_lines csvText ! Suc i))
               then Some (csv_fields (csv_lines csvText ! Suc i) ! j) else None)"
      by (simp add: nth [OF two i] csv_row_field elem_def)
  qed
qed

theorem parseCSV_rows_witness:
  "length (csv_lines ''trade_id,qty'') < 2 \<and> parseCSV ''trade_id,qty'' = [] \<and>
   2 \<le> length (csv_lines ''trade_id , qty\<newline>T1, 5\<newline>T2 '') \<and>
   length (parseCSV ''trade_id , qty\<newline>T1, 5\<newline>T2 '') = 2 \<and>
   field (parseCSV ''trade_id , qty\<newline>T1, 5\<newline>T2 '' ! 0) ''qty'' = Some ''5'' \<and>
   field (parseCSV ''trade_id , qty\<newline>T1, 5\<newline>T2 '' ! 1) ''qty'' = None"
proof -
  let ?A = "''trade_id,qty''" and ?B = "''trade_id , qty\<newline>T1, 5\<newline>T2 ''"
  have a: "length (csv_lines ?A) < 2" by code_simp
  have l: "csv_lines ?B = [''trade_id , qty'', ''T1, 5'', ''T2'']" by code_simp
  have f: "csv_fields ''trade_id , qty'' = [''trade_id'', ''qty'']"
    "csv_fields ''T1, 5'' = [''T1'', ''5'']" "csv_fields ''T2'' = [''T2'']" by code_simp+
  from parseCSV_rows [of ?A] a have r1: "parseCSV ?A = []" by blast
  have r2: "length (parseCSV ?B) = 2" using parseCSV_rows [of ?B] by (simp add: l)
  have r3: "field (parseCSV ?B ! 0) ''qty'' = Some ''5''"
    using parseCSV_rows [of ?B 0 1] by (simp add: l f) 
  have r4: "field (parseCSV ?B ! 1) ''qty'' = None"
    using parseCSV_rows [of ?B 1 1] by (simp add: l f)
  show ?thesis using a r1 r2 r3 r4 by (simp add: l)
qed

text \<open>The parser returns rows exactly when the text has a header line and a data line.\<close>

lemma parseCSV_nonempty: "parseCSV csvText \<noteq> [] \<longleftrightarrow> 2 \<le> length (csv_lines csvText)"
proof -
  have "tl xs \<noteq> []" if "2 \<le> length xs" for xs :: "string list"
    using that by (cases xs) auto
  then show ?thesis by (auto simp: parseCSV_def Let_def)
qed

lemma length_parseCSV:
  "2 \<le> length (csv_lines csvText) \<Longrightarrow> length (parseCSV csvText) = length (csv_lines csvText) - 1"
  by (simp add: parseCSV_def Let_def)

lemma csv_lines_of_rows:
  assumes "parseCSV csvText = rows" "rows \<noteq> []"
  shows "2 \<le> length (csv_lines csvText)" and "length (csv_lines csvText) = Suc (length rows)"
proof -
  show two: "2 \<le> length (csv_lines csvText)"
    using assms parseCSV_nonempty [of csvText] by simp
  show "length (csv_lines csvText) = Suc (length rows)"
    using length_parseCSV [OF two] two assms(1) by simp
qed

text \<open>The sample files, parsed.\<close>

lemma parseCSV_sampleTrades: "parseCSV sampleTradesCsv = sampleTradeRows"
  by code_simp

lemma parseCSV_rejectedTrades: "parseCSV rejectedTradesCsv = rejectedTradeRows"
  by code_simp

lemma parseCSV_samplePrices: "parseCSV samplePricesCsv = samplePriceRows"
  by code_simp

subsection \<open>Trade validation\<close>

lemma toUpperCase_Nil [simp]: "toUpperCase [] = []"
  by (simp add: toUpperCase_def)

lemma truthy_present: "truthy (field r k) = present r k"
  by (simp add: truthy_def present_def)

text \<open>The messages pushed are those of the rules the row breaks, in the order of the rules.\<close>

lemma validateTrade_errors:
  "errors (validateTrade r) = map fst (filter (\<lambda>rule. \<not> snd rule r) tradeRules)"
  by (cases "field r ''side''")
     (simp_all add: validateTrade_def tradeRules_def truthy_present isNaN_def Let_def)

lemma validateTrade_valid: "valid (validateTrade r) \<longleftrightarrow> errors (validateTrade r) = []"
  by (simp add: validateTrade_def Let_def)

lemma validateTrade_valid_rules:
  "valid (validateTrade r) \<longleftrightarrow> list_all (\<lambda>rule. snd rule r) tradeRules"
  by (simp add: validateTrade_valid validateTrade_errors filter_empty_conv list_all_iff)

text \<open>
  C6, as the claim states it, fails: a quantity of \<^verbatim>\<open>Infinity\<close> is not a finite number, yet
  the row passes validation with no error, because the check is
  \<^verbatim>\<open>isNaN(parseFloat(...))\<close> and \<^verbatim>\<open>parseFloat("Infinity")\<close> is \<^verbatim>\<open>Infinity\<close>.
\<close>

theorem validateTrade_finite_counterexample:
  "parseFloatV (field infRow ''quantity'') = PosInf \<and>
   \<not> isFinite (parseFloatV (field infRow ''quantity'')) \<and>
   validateTrade infRow = \<lparr>valid = True, errors = []\<rparr>"
  by code_simp

text \<open>
  C6, amended.  For every raw row \<^verbatim>\<open>validateTrade\<close> checks all six rules and returns one
  message for each rule the row breaks, in rule order, whatever the other rules give; the
  row is valid exactly when there is no message, that is, when it meets every rule.  The
  rules are those of \<^const>\<open>tradeRules\<close>: \<open>trade_id\<close>, \<open>trade_date\<close> and \<open>instrument\<close> present;
  \<open>side\<close>, uppercased, equal to \<^verbatim>\<open>BUY\<close> or \<^verbatim>\<open>SELL\<close>; \<open>quantity\<close> and \<open>trade_price\<close> present
  and read by \<^verbatim>\<open>parseFloat\<close> as something other than \<^verbatim>\<open>NaN\<close> (an infinity passes).
\<close>

theorem validateTrade_rules:
  "errors (validateTrade r) = map fst (filter (\<lambda>rule. \<not> snd rule r) tradeRules) \<and>
   length (errors (validateTrade r)) = length (filter (\<lambda>rule. \<not> snd rule r) tradeRules) \<and>
   (valid (validateTrade r) \<longleftrightarrow> errors (validateTrade r) = []) \<and>
   (valid (validateTrade r) \<longleftrightarrow> list_all (\<lambda>rule. snd rule r) tradeRules)"
  using validateTrade_errors [of r] validateTrade_valid [of r] validateTrade_valid_rules [of r]
  by simp

theorem validateTrade_rules_witness:
  "errors (validateTrade badRow) =
     [''trade_date is required'', ''side must be BUY or SELL'', ''quantity must be a valid number''] \<and>
   length (errors (validateTrade badRow)) = 3 \<and> \<not> valid (validateTrade badRow) \<and>
   valid (validateTrade infRow)"
proof -
  have b: "map fst (filter (\<lambda>rule. \<not> snd rule badRow) tradeRules) =
     [''trade_date is required'', ''side must be BUY or SELL'', ''quantity must be a valid number'']"
    by code_simp
  have i: "list_all (\<lambda>rule. snd rule infRow) tradeRules" by code_simp
  have 1: "errors (validateTrade badRow) =
     [''trade_date is required'', ''side must be BUY or SELL'', ''quantity must be a valid number'']"
    using validateTrade_rules [of badRow] b by simp
  have 2: "\<not> valid (validateTrade badRow)"
    using validateTrade_rules [of badRow] 1 by simp
  have 3: "valid (validateTrade infRow)"
    using validateTrade_rules [of infRow] i by blast
  show ?thesis using 1 2 3 by simp
qed

subsection \<open>Uploads\<close>

lemma slice_first: "slice xs (Num 0) (Num (of_nat n)) = take n xs"
  by (simp add: slice_def trunc_def min_def)

lemma slice_first_10: "slice xs (Num 0) (Num 10) = take 10 xs"
  using slice_first [of xs 10] by simp

text \<open>The loop over the rows sorts each row into one of the two lists by its own
  validation, keeping the order of the rows.\<close>

lemma fold_uploadStep:
  "fold uploadStep rows (vs, is) =
     (vs @ map normalizeTrade (filter (\<lambda>r. valid (validateTrade r)) rows),
      is @ map (\<lambda>r. (r, errors (validateTrade r))) (filter (\<lambda>r. \<not> valid (validateTrade r)) rows))"
  by (induction rows arbitrary: vs "is") (simp_all add: uploadStep_def Let_def)

lemma uploadTrades_eq:
  assumes "parseCSV csvText \<noteq> []"
  shows "uploadTrades (Some csvText) s =
    (Inr \<lparr>success = True,
          validCount = length (filter (\<lambda>r. valid (validateTrade r)) (parseCSV csvText)),
          invalidCount = length (filter (\<lambda>r. \<not> valid (validateTrade r)) (parseCSV csvText)),
          invalidTrades = take 10 (map (\<lambda>r. (r, errors (validateTrade r)))
                            (filter (\<lambda>r. \<not> valid (validateTrade r)) (parseCSV csvText)))\<rparr>,
     if filter (\<lambda>r. valid (validateTrade r)) (parseCSV csvText) = [] then s
     else setTrades (getTrades s @ map normalizeTrade
            (filter (\<lambda>r. valid (validateTrade r)) (parseCSV csvText))) s)"
  using assms by (simp add: uploadTrades_def Let_def fold_uploadStep slice_first_10)

text \<open>What normalisation makes of a row that passed validation.\<close>

lemma normalizeTrade_valid:
  assumes "valid (validateTrade r)"
  shows "field r ''trade_id'' = Some (trade_id (normalizeTrade r)) \<and>
     field r ''trade_date'' = Some (trade_date (normalizeTrade r)) \<and>
     field r ''instrument'' = Some (instrument (normalizeTrade r)) \<and>
     (\<exists>s. field r ''side'' = Some s \<and> side (normalizeTrade r) = toUpperCase s) \<and>
     (side (normalizeTrade r) = ''BUY'' \<or> side (normalizeTrade r) = ''SELL'') \<and>
     quantity (normalizeTrade r) = parseFloatV (field r ''quantity'') \<and>
     quantity (normalizeTrade r) \<noteq> NaN \<and>
     trade_price (normalizeTrade r) = parseFloatV (field r ''trade_price'') \<and>
     trade_price (normalizeTrade r) \<noteq> NaN \<and>
     trader (normalizeTrade r) = (if present r ''trader'' then required r ''trader'' else ''Unknown'') \<and>
     currency (normalizeTrade r) = (if present r ''currency'' then required r ''currency'' else ''USD'')"
proof -
  from assms have "list_all (\<lambda>rule. snd rule r) tradeRules"
    by (simp add: validateTrade_valid_rules)
  then show ?thesis
    by (auto simp: tradeRules_def normalizeTrade_def required_def present_def orElse_def
        split: option.splits)
qed

text \<open>The sample rows, validated and normalised; the sample prices.\<close>

lemma sample_valid_rows:
  "map normalizeTrade (filter (\<lambda>r. valid (validateTrade r)) sampleTradeRows) =
     [brentTrade, wtiTrade, sellTrade]"
  by code_simp

lemma sample_invalid_rows:
  "map (\<lambda>r. (r, errors (validateTrade r)))
     (filter (\<lambda>r. \<not> valid (validateTrade r)) sampleTradeRows) =
     [(sampleTradeRows ! 2, [''side must be BUY or SELL'', ''quantity must be a valid number''])]"
  by code_simp

lemma sample_price_rows:
  "map (\<lambda>row. \<lparr>price_instrument = field row ''instrument'',
                   price_date = field row ''price_date'',
                   close_price = parseFloatV (field row ''close_price'')\<rparr>) samplePriceRows =
     [wtiEarly, wtiLate, brentNoClose]"
  by code_simp

lemma sample_valid_count: "length (filter (\<lambda>r. valid (validateTrade r)) sampleTradeRows) = 3"
  using arg_cong [OF sample_valid_rows, of length] by simp

lemma sample_invalid_count: "length (filter (\<lambda>r. \<not> valid (validateTrade r)) sampleTradeRows) = 1"
  using arg_cong [OF sample_invalid_rows, of length] by simp

text \<open>
  C7.  For a CSV with a header line and at least one data line, \<^verbatim>\<open>uploadTrades\<close> answers
  with the number of rows that pass validation, the number of rows that fail it (the two
  add up to the number of rows: every row is judged, each on its own), and the first ten
  failing rows with their messages.  The trade collection afterwards is the old one
  followed by the normalised valid rows, in order; the price collection is untouched.
  A valid row \<open>r\<close> is normalised to its own \<open>trade_id\<close>, \<open>trade_date\<close> and \<open>instrument\<close>, its
  \<open>side\<close> in upper case, its \<open>quantity\<close> and \<open>trade_price\<close> as numbers, and its \<open>trader\<close>
  and \<open>currency\<close>, or \<^verbatim>\<open>Unknown\<close> and \<^verbatim>\<open>USD\<close> where they are missing or empty.
\<close>

theorem uploadTrades_partition:
  assumes "2 \<le> length (csv_lines csvText)"
  shows "fst (uploadTrades (Some csvText) s) =
      Inr \<lparr>success = True,
           validCount = length (filter (\<lambda>r. valid (validateTrade r)) (parseCSV csvText)),
           invalidCount = length (filter (\<lambda>r. \<not> valid (validateTrade r)) (parseCSV csvText)),
           invalidTrades = take 10 (map (\<lambda>r. (r, errors (validateTrade r)))
                             (filter (\<lambda>r. \<not> valid (validateTrade r)) (parseCSV csvText)))\<rparr> \<and>
    length (filter (\<lambda>r. valid (validateTrade r)) (parseCSV csvText)) +
      length (filter (\<lambda>r. \<not> valid (validateTrade r)) (parseCSV csvText)) =
      length (csv_lines csvText) - 1 \<and>
    getTrades (snd (uploadTrades (Some csvText) s)) =
      getTrades s @ map normalizeTrade (filter (\<lambda>r. valid (validateTrade r)) (parseCSV csvText)) \<and>
    kv_market_prices (snd (uploadTrades (Some csvText) s)) = kv_market_prices s \<and>
    (valid (validateTrade r) \<longrightarrow>
       (\<exists>sd. field r ''side'' = Some sd \<and> side (normalizeTrade r) = toUpperCase sd) \<and>
       quantity (normalizeTrade r) = parseFloatV (field r ''quantity'') \<and>
       quantity (normalizeTrade r) \<noteq> NaN \<and>
       trade_price (normalizeTrade r) = parseFloatV (field r ''trade_price'') \<and>
       trade_price (normalizeTrade r) \<noteq> NaN \<and>
       trader (normalizeTrade r) = (if present r ''trader'' then required r ''trader'' else ''Unknown'') \<and>
       currency (normalizeTrade r) = (if present r ''currency'' then required r ''currency'' else ''USD'') \<and>
       field r ''trade_id'' = Some (trade_id (normalizeTrade r)) \<and>
       field r ''trade_date'' = Some (trade_date (normalizeTrade r)) \<and>
       field r ''instrument'' = Some (instrument (normalizeTrade r)))"
proof -
  from assms have ne: "parseCSV csvText \<noteq> []" by (simp add: parseCSV_nonempty)
  have re: "fst (uploadTrades (Some csvText) s) =
      Inr \<lparr>success = True,
           validCount = length (filter (\<lambda>r. valid (validateTrade r)) (parseCSV csvText)),
           invalidCount = length (filter (\<lambda>r. \<not> valid (validateTrade r)) (parseCSV csvText)),
           invalidTrades = take 10 (map (\<lambda>r. (r, errors (validateTrade r)))
                             (filter (\<lambda>r. \<not> valid (validateTrade r)) (parseCSV csvText)))\<rparr>"
    by (simp add: uploadTrades_eq [OF ne])
  have n: "length (filter (\<lambda>r. valid (validateTrade r)) (parseCSV csvText)) +
      length (filter (\<lambda>r. \<not> valid (validateTrade r)) (parseCSV csvText)) =
      length (csv_lines csvText) - 1"
    using sum_length_filter_compl [of "\<lambda>r. valid (validateTrade r)" "parseCSV csvText"]
      length_parseCSV [OF assms] by simp
  have st: "getTrades (snd (uploadTrades (Some csvText) s)) =
      getTrades s @ map normalizeTrade (filter (\<lambda>r. valid (validateTrade r)) (parseCSV csvText))"
    by (simp add: uploadTrades_eq [OF ne] getTrades_def setTrades_def)
  have mp: "kv_market_prices (snd (uploadTrades (Some csvText) s)) = kv_market_prices s"
    by (simp add: uploadTrades_eq [OF ne] setTrades_def)
  have nz: "valid (validateTrade r) \<longrightarrow>
       (\<exists>sd. field r ''side'' = Some sd \<and> side (normalizeTrade r) = toUpperCase sd) \<and>
       quantity (normalizeTrade r) = parseFloatV (field r ''quantity'') \<and>
       quantity (normalizeTrade r) \<noteq> NaN \<and>
       trade_price (normalizeTrade r) = parseFloatV (field r ''trade_price'') \<and>
       trade_price (normalizeTrade r) \<noteq> NaN \<and>
       trader (normalizeTrade r) = (if present r ''trader'' then required r ''trader'' else ''Unknown'') \<and>
       currency (normalizeTrade r) = (if present r ''currency'' then required r ''currency'' else ''USD'') \<and>
       field r ''trade_id'' = Some (trade_id (normalizeTrade r)) \<and>
       field r ''trade_date'' = Some (trade_date (normalizeTrade r)) \<and>
       field r ''instrument'' = Some (instrument (normalizeTrade r))"
    using normalizeTrade_valid [of r] by blast
  show ?thesis
    by (intro conjI) (fact re n st mp nz)+
qed

theorem uploadTrades_partition_witness:
  "2 \<le> length (csv_lines sampleTradesCsv) \<and>
   fst (uploadTrades (Some sampleTradesCsv) oldStore) =
     Inr \<lparr>success = True, validCount = 3, invalidCount = 1,
          invalidTrades = [(sampleTradeRows ! 2,
             [''side must be BUY or SELL'', ''quantity must be a valid number''])]\<rparr> \<and>
   getTrades (snd (uploadTrades (Some sampleTradesCsv) oldStore)) =
     [oldTrade, brentTrade, wtiTrade, sellTrade] \<and>
   valid (validateTrade (sampleTradeRows ! 3)) \<and>
   quantity (normalizeTrade (sampleTradeRows ! 3)) = Num 200"
proof -
  note rows = parseCSV_sampleTrades
  have ne: "sampleTradeRows \<noteq> []" by (simp add: sampleTradeRows_def)
  have h: "2 \<le> length (csv_lines sampleTradesCsv)"
    by (rule csv_lines_of_rows(1) [OF rows ne])
  have n: "length (csv_lines sampleTradesCsv) = 5"
    using csv_lines_of_rows(2) [OF rows ne] by (simp add: sampleTradeRows_def)
  have v: "valid (validateTrade (sampleTradeRows ! 3))" by code_simp
  have q: "parseFloatV (field (sampleTradeRows ! 3) ''quantity'') = Num 200"
    by code_simp
  show ?thesis
    using uploadTrades_partition [OF h, of oldStore "sampleTradeRows ! 3"] h v
    by (simp add: rows sample_valid_count sample_invalid_count sample_invalid_rows
        sample_valid_rows q n getTrades_def oldStore_def)
qed

text \<open>
  C10.  When the CSV has at least one data line and every parsed row fails validation,
  \<^verbatim>\<open>uploadTrades\<close> returns the store it was given (a key that was absent stays absent: no
  write took place) and still answers with the success shape: no valid row, all \<open>N\<close> rows
  invalid, and the first ten of them with their messages.
\<close>

theorem uploadTrades_all_invalid:
  assumes "2 \<le> length (csv_lines csvText)"
    and "\<forall>r \<in> set (parseCSV csvText). \<not> valid (validateTrade r)"
  shows "uploadTrades (Some csvText) s =
    (Inr \<lparr>success = True, validCount = 0, invalidCount = length (csv_lines csvText) - 1,
          invalidTrades = take 10 (map (\<lambda>r. (r, errors (validateTrade r))) (parseCSV csvText))\<rparr>, s)"
proof -
  from assms(1) have ne: "parseCSV csvText \<noteq> []" by (simp add: parseCSV_nonempty)
  from assms(2) have v: "filter (\<lambda>r. valid (validateTrade r)) (parseCSV csvText) = []"
    by (simp add: filter_empty_conv)
  from assms(2) have i: "filter (\<lambda>r. \<not> valid (validateTrade r)) (parseCSV csvText) = parseCSV csvText"
    by (simp add: filter_id_conv)
  show ?thesis
    by (simp add: uploadTrades_eq [OF ne] v i length_parseCSV [OF assms(1)])
qed

theorem uploadTrades_all_invalid_witness:
  "2 \<le> length (csv_lines rejectedTradesCsv) \<and>
   list_all (\<lambda>r. \<not> valid (validateTrade r)) (parseCSV rejectedTradesCsv) \<and>
   snd (uploadTrades (Some rejectedTradesCsv) emptyStore) = emptyStore \<and>
   kv_trades (snd (uploadTrades (Some rejectedTradesCsv) emptyStore)) = None \<and>
   fst (uploadTrades (Some rejectedTradesCsv) emptyStore) =
     Inr \<lparr>success = True, validCount = 0, invalidCount = 2,
          invalidTrades =
            [(hd rejectedTradeRows,
                [''trade_date is required'', ''instrument is required'',
                 ''side must be BUY or SELL'', ''quantity must be a valid number'',
                 ''trade_price must be a valid number'']),
             (last rejectedTradeRows,
                [''trade_id is required'', ''trade_date is required'', ''instrument is required'',
                 ''trade_price must be a valid number''])]\<rparr>"
proof -
  note rows = parseCSV_rejectedTrades
  have ne: "rejectedTradeRows \<noteq> []" by (simp add: rejectedTradeRows_def)
  have h: "2 \<le> length (csv_lines rejectedTradesCsv)"
    by (rule csv_lines_of_rows(1) [OF rows ne])
  have n: "length (csv_lines rejectedTradesCsv) = 3"
    using csv_lines_of_rows(2) [OF rows ne] by (simp add: rejectedTradeRows_def)
  have a: "list_all (\<lambda>r. \<not> valid (validateTrade r)) rejectedTradeRows" by code_simp
  then have a': "\<forall>r \<in> set (parseCSV rejectedTradesCsv). \<not> valid (validateTrade r)"
    by (simp add: list_all_iff rows)
  have i: "take 10 (map (\<lambda>r. (r, errors (validateTrade r))) rejectedTradeRows) =
            [(hd rejectedTradeRows,
                [''trade_date is required'', ''instrument is required'',
                 ''side must be BUY or SELL'', ''quantity must be a valid number'',
                 ''trade_price must be a valid number'']),
             (last rejectedTradeRows,
                [''trade_id is required'', ''trade_date is required'', ''instrument is required'',
                 ''trade_price must be a valid number''])]"
    by code_simp
  show ?thesis
    using uploadTrades_all_invalid [OF h a', of emptyStore] h a
    by (simp add: rows n i emptyStore_def)
qed

text \<open>
  C9.  For a CSV with a header line and at least one data line, \<^verbatim>\<open>uploadMarketPrices\<close>
  succeeds and counts one price for each data line.  The price collection afterwards is
  exactly the list of the parsed rows, each as its \<open>instrument\<close> and \<open>price_date\<close> fields,
  as they are, and its \<open>close_price\<close> as \<^verbatim>\<open>parseFloat\<close> reads it: no row is dropped or
  checked, and nothing of the old collection remains.  The trade collection is untouched.
\<close>

theorem uploadMarketPrices_replaces:
  assumes "2 \<le> length (csv_lines csvText)"
  shows "fst (uploadMarketPrices (Some csvText) s) =
      Inr \<lparr>price_success = True, count = length (csv_lines csvText) - 1\<rparr> \<and>
    kv_market_prices (snd (uploadMarketPrices (Some csvText) s)) =
      Some (map (\<lambda>row. \<lparr>price_instrument = field row ''instrument'',
                         price_date = field row ''price_date'',
                         close_price = parseFloatV (field row ''close_price'')\<rparr>)
              (parseCSV csvText)) \<and>
    kv_trades (snd (uploadMarketPrices (Some csvText) s)) = kv_trades s"
proof -
  from assms have ne: "parseCSV csvText \<noteq> []" by (simp add: parseCSV_nonempty)
  have p: "priceOfRow = (\<lambda>row. \<lparr>price_instrument = field row ''instrument'',
                         price_date = field row ''price_date'',
                         close_price = parseFloatV (field row ''close_price'')\<rparr>)"
    by (simp add: priceOfRow_def fun_eq_iff)
  show ?thesis
    using ne by (simp add: uploadMarketPrices_def Let_def setMarketPrices_def p [symmetric]
        length_parseCSV [OF assms])
qed

theorem uploadMarketPrices_replaces_witness:
  "2 \<le> length (csv_lines samplePricesCsv) \<and>
   fst (uploadMarketPrices (Some samplePricesCsv) oldStore) = Inr \<lparr>price_success = True, count = 3\<rparr> \<and>
   kv_market_prices (snd (uploadMarketPrices (Some samplePricesCsv) oldStore)) =
     Some [wtiEarly, wtiLate, brentNoClose] \<and>
   kv_trades (snd (uploadMarketPrices (Some samplePricesCsv) oldStore)) = Some [oldTrade]"
proof -
  note rows = parseCSV_samplePrices
  have ne: "samplePriceRows \<noteq> []" by (simp add: samplePriceRows_def)
  have h: "2 \<le> length (csv_lines samplePricesCsv)"
    by (rule csv_lines_of_rows(1) [OF rows ne])
  have n: "length (csv_lines samplePricesCsv) = 4"
    using csv_lines_of_rows(2) [OF rows ne] by (simp add: samplePriceRows_def)
  show ?thesis
    using uploadMarketPrices_replaces [OF h, of oldStore] h
    by (simp add: rows n sample_price_rows oldStore_def)
qed

text \<open>The store after both sample uploads.\<close>

lemma uploadedStore_eq:
  "uploadedStore =
     \<lparr>kv_trades = Some [brentTrade, wtiTrade, sellTrade],
      kv_market_prices = Some [wtiEarly, wtiLate, brentNoClose]\<rparr>"
proof -
  have t: "parseCSV sampleTradesCsv \<noteq> []" "parseCSV samplePricesCsv \<noteq> []"
    by (simp_all add: parseCSV_sampleTrades parseCSV_samplePrices sampleTradeRows_def
        samplePriceRows_def)
  have v: "filter (\<lambda>r. valid (validateTrade r)) sampleTradeRows \<noteq> []"
    using sample_valid_count by auto
  have "priceOfRow = (\<lambda>row. \<lparr>price_instrument = field row ''instrument'',
                         price_date = field row ''price_date'',
                         close_price = parseFloatV (field row ''close_price'')\<rparr>)"
    by (simp add: priceOfRow_def fun_eq_iff)
  then have p: "map priceOfRow samplePriceRows = [wtiEarly, wtiLate, brentNoClose]"
    using sample_price_rows by simp
  have "snd (uploadTrades (Some sampleTradesCsv) emptyStore) =
      \<lparr>kv_trades = Some [brentTrade, wtiTrade, sellTrade], kv_market_prices = None\<rparr>"
    using v by (simp add: uploadTrades_eq [OF t(1)] parseCSV_sampleTrades sample_valid_rows
        setTrades_def getTrades_def emptyStore_def)
  then show ?thesis
    using t(2) by (simp add: uploadedStore_def uploadMarketPrices_def Let_def
        parseCSV_samplePrices p setMarketPrices_def)
qed

subsection \<open>Filters\<close>

lemma whenGiven_filter:
  "whenGiven q (\<lambda>v. filter (P v)) xs = filter (\<lambda>x. unlessGiven q (\<lambda>v. P v x)) xs"
  by (cases q) (simp_all add: whenGiven_def unlessGiven_def)

lemma str_includes_sublist: "str_includes s sub \<longleftrightarrow> sublist sub s"
  by (induction s) (auto simp: sublist_Cons_right)

lemma listFilter_eq:
  "listFilter fromDate toDate instr trdr ts =
     filter (\<lambda>t. unlessGiven fromDate (\<lambda>v. v \<le> trade_date t) \<and>
                 unlessGiven toDate (\<lambda>v. trade_date t \<le> v) \<and>
                 unlessGiven instr (\<lambda>v. sublist (toLowerCase v) (toLowerCase (instrument t))) \<and>
                 unlessGiven trdr (\<lambda>v. sublist (toLowerCase v) (toLowerCase (trader t)))) ts"
  unfolding listFilter_def whenGiven_filter filter_filter str_includes_sublist
  by (rule filter_cong) auto

lemma pnlFilter_eq:
  "pnlFilter fromDate toDate instr ts =
     filter (\<lambda>t. unlessGiven fromDate (\<lambda>v. v \<le> trade_date t) \<and>
                 unlessGiven toDate (\<lambda>v. trade_date t \<le> v) \<and>
                 unlessGiven instr (\<lambda>v. instrument t = v)) ts"
  unfolding pnlFilter_def whenGiven_filter filter_filter
  by (rule filter_cong) auto

text \<open>The sort rearranges its argument and nothing else.\<close>

lemma mset_sort_insert: "mset (sort_insert cmp x xs) = add_mset x (mset xs)"
  by (induction xs) simp_all

lemma mset_js_sort: "mset (js_sort cmp xs) = mset xs"
  by (induction xs) (simp_all add: js_sort_def mset_sort_insert)

lemma length_js_sort: "length (js_sort cmp xs) = length xs"
  using mset_js_sort [of cmp xs] by (metis size_mset)




lemma computePnL_tradeCount:
  "tradeCount (computePnL parseDate fromDate toDate instr s) =
     length (pnlFilter fromDate toDate instr (getTrades s))"
  by (simp add: computePnL_def Let_def)

text \<open>
  C3.  A filter is given when its query parameter is sent and not empty.  \<^verbatim>\<open>listTrades\<close>
  keeps, in order, exactly the trades whose \<open>trade_date\<close> is at or after \<open>fromDate\<close> and at
  or before \<open>toDate\<close> in the order of strings, whose \<open>instrument\<close> in lower case contains
  the instrument filter in lower case, and whose \<open>trader\<close> likewise contains the trader
  filter, each condition binding only when its filter is given; what it lists is a
  rearrangement of these.  \<^verbatim>\<open>computePnL\<close> keeps, in order, exactly the trades within the
  same date bounds whose \<open>instrument\<close> equals the instrument filter, and counts them as
  \<open>tradeCount\<close>.
\<close>

theorem filters_substring_vs_exact:
  "listFilter fromDate toDate instr trdr ts =
     filter (\<lambda>t. unlessGiven fromDate (\<lambda>v. v \<le> trade_date t) \<and>
                 unlessGiven toDate (\<lambda>v. trade_date t \<le> v) \<and>
                 unlessGiven instr (\<lambda>v. sublist (toLowerCase v) (toLowerCase (instrument t))) \<and>
                 unlessGiven trdr (\<lambda>v. sublist (toLowerCase v) (toLowerCase (trader t)))) ts \<and>
   mset (listSorted localeCompare fromDate toDate instr trdr s) =
     mset (listFilter fromDate toDate instr trdr (getTrades s)) \<and>
   pnlFilter fromDate toDate instr ts =
     filter (\<lambda>t. unlessGiven fromDate (\<lambda>v. v \<le> trade_date t) \<and>
                 unlessGiven toDate (\<lambda>v. trade_date t \<le> v) \<and>
                 unlessGiven instr (\<lambda>v. instrument t = v)) ts \<and>
   tradeCount (computePnL parseDate fromDate toDate instr s) =
     length (pnlFilter fromDate toDate instr (getTrades s))"
  by (intro conjI)
     (rule listFilter_eq, simp add: listSorted_def mset_js_sort, rule pnlFilter_eq,
      rule computePnL_tradeCount)

theorem filters_substring_vs_exact_witness:
  "listFilter (Some ''2025-01-15'') (Some []) (Some ''wti'') None
     [spreadTrade, gasTrade, wtiTrade, oldTrade] = [spreadTrade, wtiTrade] \<and>
   pnlFilter (Some ''2025-01-15'') (Some []) (Some ''wti'')
     [spreadTrade, gasTrade, wtiTrade, oldTrade] = [] \<and>
   pnlFilter (Some ''2025-01-15'') (Some []) (Some ''WTI-CRUDE'')
     [spreadTrade, gasTrade, wtiTrade, oldTrade] = [wtiTrade] \<and>
   tradeCount (computePnL isoDate None (Some ''2025-01-31'') None deskStore) = 2"
proof -
  let ?ts = "[spreadTrade, gasTrade, wtiTrade, oldTrade]"
  have a: "filter (\<lambda>t. unlessGiven (Some ''2025-01-15'') (\<lambda>v. v \<le> trade_date t) \<and>
                 unlessGiven (Some []) (\<lambda>v. trade_date t \<le> v) \<and>
                 unlessGiven (Some ''wti'')
                   (\<lambda>v. str_includes (toLowerCase (instrument t)) (toLowerCase v)) \<and>
                 unlessGiven None
                   (\<lambda>v. str_includes (toLowerCase (trader t)) (toLowerCase v))) ?ts
     = [spreadTrade, wtiTrade]" by code_simp
  have b: "filter (\<lambda>t. unlessGiven (Some ''2025-01-15'') (\<lambda>v. v \<le> trade_date t) \<and>
                 unlessGiven (Some []) (\<lambda>v. trade_date t \<le> v) \<and>
                 unlessGiven (Some ''wti'') (\<lambda>v. instrument t = v)) ?ts = []" by code_simp
  have c: "filter (\<lambda>t. unlessGiven (Some ''2025-01-15'') (\<lambda>v. v \<le> trade_date t) \<and>
                 unlessGiven (Some []) (\<lambda>v. trade_date t \<le> v) \<and>
                 unlessGiven (Some ''WTI-CRUDE'') (\<lambda>v. instrument t = v)) ?ts = [wtiTrade]"
    by code_simp
  have d: "length (pnlFilter None (Some ''2025-01-31'') None (getTrades deskStore)) = 2"
    by code_simp
  note wti = filters_substring_vs_exact
    [of "Some ''2025-01-15''" "Some []" "Some ''wti''" None ?ts codeCompare deskStore isoDate]
  note crude = filters_substring_vs_exact
    [of "Some ''2025-01-15''" "Some []" "Some ''WTI-CRUDE''" None ?ts codeCompare deskStore isoDate]
  note jan = filters_substring_vs_exact
    [of None "Some ''2025-01-31''" None None ?ts codeCompare deskStore isoDate]
  have r1: "listFilter (Some ''2025-01-15'') (Some []) (Some ''wti'') None ?ts = [spreadTrade, wtiTrade]"
    unfolding wti [THEN conjunct1] str_includes_sublist [symmetric] by (rule a)
  have r2: "pnlFilter (Some ''2025-01-15'') (Some []) (Some ''wti'') ?ts = []"
    unfolding wti [THEN conjunct2, THEN conjunct2, THEN conjunct1] by (rule b)
  have r3: "pnlFilter (Some ''2025-01-15'') (Some []) (Some ''WTI-CRUDE'') ?ts = [wtiTrade]"
    unfolding crude [THEN conjunct2, THEN conjunct2, THEN conjunct1] by (rule c)
  have r4: "tradeCount (computePnL isoDate None (Some ''2025-01-31'') None deskStore) = 2"
    unfolding jan [THEN conjunct2, THEN conjunct2, THEN conjunct2] by (rule d)
  show ?thesis by (intro conjI) (fact r1 r2 r3 r4)+
qed

subsection \<open>The sort of the trade list\<close>












subsection \<open>Pagination\<close>

lemma trunc_of_int [simp]: "trunc (of_int a) = a"
  by (simp add: trunc_def)

lemma trunc_minus_of_int [simp]: "trunc (- of_int a) = - a"
  using trunc_of_int [of "- a"] by (simp del: trunc_of_int)

lemma trunc_0 [simp]: "trunc 0 = 0"
  by (simp add: trunc_def)

lemma relIndex_nonneg: "0 \<le> a \<Longrightarrow> relIndex (Num (of_int a)) len = min (nat a) len"
  by (simp add: min_def) linarith

lemma take_drop_clamp:
  "a \<le> b \<Longrightarrow> take (min b (length xs) - min a (length xs)) (drop (min a (length xs)) xs)
     = take (b - a) (drop a xs)"
  by (cases "a \<le> length xs"; cases "b \<le> length xs") (simp_all add: min_def)

text \<open>Between two indices that are not negative, \<^verbatim>\<open>slice\<close> is the interval of the list.\<close>

lemma slice_range:
  assumes "0 \<le> a" "a \<le> b"
  shows "slice xs (Num (of_int a)) (Num (of_int b)) = take (nat b - nat a) (drop (nat a) xs)"
proof -
  have "nat a \<le> nat b" using assms by simp
  then show ?thesis
    using assms
    by (simp add: slice_def relIndex_nonneg take_drop_clamp Let_def del: relIndex.simps)
qed

lemma slice_page_zero:
  assumes "1 \<le> l"
  shows "slice xs (Num (of_int (- l))) (Num (of_int 0)) = []"
  using assms by (simp add: slice_def Let_def)

lemma page_bounds:
  "js_mul (js_sub (Num (of_int p)) (Num 1)) (Num (of_int l)) = Num (of_int ((p - 1) * l))"
  "js_add (Num (of_int ((p - 1) * l))) (Num (of_int l)) = Num (of_int ((p - 1) * l + l))"
  by (simp_all add: js_sub_def)

lemma listTrades_unfold:
  assumes "parseInt (orElse pageQ ''1'') = Num (of_int p)"
    and "parseInt (orElse limitQ ''50'') = Num (of_int l)"
  shows "listTrades lc fromDate toDate instr trdr pageQ limitQ s =
    \<lparr>trades = slice (listSorted lc fromDate toDate instr trdr s)
                (Num (of_int ((p - 1) * l))) (Num (of_int ((p - 1) * l + l))),
     pagination = \<lparr>page = Num (of_int p), limit = Num (of_int l),
        total = length (listSorted lc fromDate toDate instr trdr s),
        totalPages = js_ceil (js_div (Num (of_nat (length (listSorted lc fromDate toDate instr trdr s))))
                       (Num (of_int l)))\<rparr>\<rparr>"
  unfolding listTrades_def assms Let_def page_bounds ..

text \<open>A page above the number of pages starts at or after the end of the list.\<close>

lemma beyond_last_page:
  assumes "1 \<le> l" "\<lceil>(of_nat n :: rat) / of_int l\<rceil> < p"
  shows "n \<le> nat ((p - 1) * l)"
proof -
  from assms(2) have "\<lceil>(of_nat n :: rat) / of_int l\<rceil> \<le> p - 1" by simp
  then have "(of_nat n :: rat) / of_int l \<le> of_int (p - 1)" by (rule iffD1 [OF ceiling_le_iff])
  with assms(1) have "(of_nat n :: rat) \<le> of_int (p - 1) * of_int l"
    by (simp add: pos_divide_le_eq)
  then have "(of_int (int n) :: rat) \<le> of_int ((p - 1) * l)" by simp
  then have "int n \<le> (p - 1) * l" by (simp only: of_int_le_iff)
  then show ?thesis by simp
qed

text \<open>
  C5, as the claim states it, fails for a negative page: \<^verbatim>\<open>slice\<close> counts a negative index
  from the end of the list.  With three trades, \<^verbatim>\<open>limit=1\<close> and \<^verbatim>\<open>page=-1\<close> the page is
  outside \<open>1..3\<close>, and the answer holds the second trade.  A negative limit does the same
  to the end of the slice: \<^verbatim>\<open>page=1\<close>, \<^verbatim>\<open>limit=-1\<close> gives all trades but the last.
\<close>

theorem listTrades_negative_page_counterexample:
  "pagination (listTrades codeCompare None None None None (Some ''-1'') (Some ''1'') deskStore) =
     \<lparr>page = Num (- 1), limit = Num 1, total = 3, totalPages = Num 3\<rparr> \<and>
   trades (listTrades codeCompare None None None None (Some ''-1'') (Some ''1'') deskStore) = [wtiTrade] \<and>
   trades (listTrades codeCompare None None None None (Some ''-1'') (Some ''1'') deskStore) \<noteq> [] \<and>
   trades (listTrades codeCompare None None None None (Some ''1'') (Some ''-1'') deskStore) =
     [gasTrade, wtiTrade]"
  by code_simp

text \<open>
  C5, amended.  Let the \<^verbatim>\<open>page\<close> and \<^verbatim>\<open>limit\<close> parameters (defaults \<open>1\<close> and \<open>50\<close>) read as
  integers \<open>p \<ge> 0\<close> and \<open>l \<ge> 1\<close>.  Then \<^verbatim>\<open>listTrades\<close> returns, of the filtered and sorted
  trades, those at the positions from \<open>(p - 1) * l\<close> up to but not including
  \<open>(p - 1) * l + l\<close> (none for \<open>p = 0\<close>), with \<open>page = p\<close>, \<open>limit = l\<close>, \<open>total\<close> the number of
  filtered trades and \<open>totalPages\<close> the ceiling of \<open>total / l\<close>.  For page \<open>0\<close> and for every
  page above \<open>totalPages\<close> the trades returned are empty, with the same pagination record
  and no error.  With 45 filtered trades and limit 20, page 3 returns 5 trades with
  \<open>totalPages = 3\<close>, and page 4 returns none.
\<close>

theorem listTrades_pagination:
  assumes "parseInt (orElse pageQ ''1'') = Num (of_int p)"
    and "parseInt (orElse limitQ ''50'') = Num (of_int l)"
    and "0 \<le> p" and "1 \<le> l"
  shows "trades (listTrades lc fromDate toDate instr trdr pageQ limitQ s) =
      (if p = 0 then []
       else take (nat l) (drop (nat ((p - 1) * l)) (listSorted lc fromDate toDate instr trdr s))) \<and>
    pagination (listTrades lc fromDate toDate instr trdr pageQ limitQ s) =
      \<lparr>page = Num (of_int p), limit = Num (of_int l),
       total = length (listFilter fromDate toDate instr trdr (getTrades s)),
       totalPages =
         Num (of_int \<lceil>(of_nat (length (listFilter fromDate toDate instr trdr (getTrades s))) :: rat)
                      / of_int l\<rceil>)\<rparr> \<and>
    (p = 0 \<or> \<lceil>(of_nat (length (listFilter fromDate toDate instr trdr (getTrades s))) :: rat)
                / of_int l\<rceil> < p
       \<longrightarrow> trades (listTrades lc fromDate toDate instr trdr pageQ limitQ s) = []) \<and>
    (length (listFilter fromDate toDate instr trdr (getTrades s)) = 45 \<and> l = 20 \<and> p = 3 \<longrightarrow>
       length (trades (listTrades lc fromDate toDate instr trdr pageQ limitQ s)) = 5 \<and>
       totalPages (pagination (listTrades lc fromDate toDate instr trdr pageQ limitQ s)) = Num 3) \<and>
    (length (listFilter fromDate toDate instr trdr (getTrades s)) = 45 \<and> l = 20 \<and> p = 4 \<longrightarrow>
       length (trades (listTrades lc fromDate toDate instr trdr pageQ limitQ s)) = 0)"
proof -
  let ?sorted = "listSorted lc fromDate toDate instr trdr s"
  let ?n = "length (listFilter fromDate toDate instr trdr (getTrades s))"
  let ?r = "listTrades lc fromDate toDate instr trdr pageQ limitQ s"
  have len: "length ?sorted = ?n"
    by (simp add: listSorted_def length_js_sort)
  have tr: "trades ?r = (if p = 0 then [] else take (nat l) (drop (nat ((p - 1) * l)) ?sorted))"
  proof (cases "p = 0")
    case True
    then show ?thesis
      using slice_page_zero [OF assms(4), of ?sorted]
      by (simp add: listTrades_unfold [OF assms(1,2)])
  next
    case False
    with assms(3) have p: "1 \<le> p" by simp
    with assms(4) have a: "0 \<le> (p - 1) * l" "(p - 1) * l \<le> (p - 1) * l + l" by simp_all
    have "nat ((p - 1) * l + l) - nat ((p - 1) * l) = nat l"
      using a assms(4) by linarith
    then show ?thesis
      using False slice_range [OF a, of ?sorted]
      by (simp add: listTrades_unfold [OF assms(1,2)])
  qed
  have pg: "pagination ?r =
      \<lparr>page = Num (of_int p), limit = Num (of_int l), total = ?n,
       totalPages = Num (of_int \<lceil>(of_nat ?n :: rat) / of_int l\<rceil>)\<rparr>"
    using assms(4) by (simp add: listTrades_unfold [OF assms(1,2)] len)
  have out: "trades ?r = []" if "p = 0 \<or> \<lceil>(of_nat ?n :: rat) / of_int l\<rceil> < p"
  proof (cases "p = 0")
    case True
    then show ?thesis by (simp add: tr)
  next
    case False
    with that have "length ?sorted \<le> nat ((p - 1) * l)"
      using beyond_last_page [OF assms(4), of "length ?sorted" p] by (simp add: len)
    then show ?thesis by (simp add: tr)
  qed
  have e3: "length (trades ?r) = 5 \<and> totalPages (pagination ?r) = Num 3"
    if "?n = 45 \<and> l = 20 \<and> p = 3"
  proof -
    have "\<lceil>(45 :: rat) / 20\<rceil> = 3" by (simp add: ceiling_eq_iff)
    then show ?thesis using that by (simp add: tr pg len)
  qed
  have e4: "length (trades ?r) = 0" if "?n = 45 \<and> l = 20 \<and> p = 4"
    using that by (simp add: tr len)
  show ?thesis using tr pg out e3 e4 by blast
qed

theorem listTrades_pagination_witness:
  "parseInt (orElse (Some ''3'') ''1'') = Num (of_int 3) \<and>
   parseInt (orElse (Some ''4'') ''1'') = Num (of_int 4) \<and>
   parseInt (orElse (Some ''20'') ''50'') = Num (of_int 20) \<and>
   length (listFilter None None None None (getTrades fullStore)) = 45 \<and>
   length (trades (listTrades codeCompare None None None None (Some ''3'') (Some ''20'') fullStore)) = 5 \<and>
   pagination (listTrades codeCompare None None None None (Some ''3'') (Some ''20'') fullStore) =
     \<lparr>page = Num 3, limit = Num 20, total = 45, totalPages = Num 3\<rparr> \<and>
   trades (listTrades codeCompare None None None None (Some ''4'') (Some ''20'') fullStore) = []"
proof -
  have p: "parseInt (orElse (Some ''3'') ''1'') = Num (of_int 3)"
    "parseInt (orElse (Some ''4'') ''1'') = Num (of_int 4)"
    "parseInt (orElse (Some ''20'') ''50'') = Num (of_int 20)" by code_simp+
  have n: "length (listFilter None None None None (getTrades fullStore)) = 45"
    by (simp add: listFilter_def whenGiven_def getTrades_def fullStore_def)
  have c: "\<lceil>(45 :: rat) / 20\<rceil> = 3" "\<lceil>(9 :: rat) / 4\<rceil> = 3" by (simp_all add: ceiling_eq_iff)
  have len: "length (listSorted codeCompare None None None None fullStore) = 45"
    by (simp add: listSorted_def length_js_sort n)
  have r3: "length (trades (listTrades codeCompare None None None None (Some ''3'') (Some ''20'') fullStore)) = 5"
    using listTrades_pagination [OF p(1) p(3), of codeCompare None None None None fullStore] n len
    by simp
  have r3': "pagination (listTrades codeCompare None None None None (Some ''3'') (Some ''20'') fullStore) =
     \<lparr>page = Num 3, limit = Num 20, total = 45, totalPages = Num 3\<rparr>"
    using listTrades_pagination [OF p(1) p(3), of codeCompare None None None None fullStore] n c
    by simp
  have r4: "trades (listTrades codeCompare None None None None (Some ''4'') (Some ''20'') fullStore) = []"
    using listTrades_pagination [OF p(2) p(3), of codeCompare None None None None fullStore] n c len
    by simp
  show ?thesis using p n r3 r3' r4 by simp
qed

subsection \<open>Valuation\<close>







text \<open>The loop appends the valued trades in the order of the trades, and adds their values
  to the total one after the other.\<close>

lemma fold_pnlStep_trades:
  "acc_tradesPnL (fold (pnlStep parseDate mps) ts acc) =
     acc_tradesPnL acc @ concat (map (valuedTrades parseDate mps) ts)"
  by (induction ts arbitrary: acc)
     (simp_all add: pnlStep_def valuedTrades_def parseFloatN_def Let_def split: option.splits)

lemma fold_pnlStep_total:
  "acc_totalPnL (fold (pnlStep parseDate mps) ts acc) =
     foldl js_add (acc_totalPnL acc) (map mtm (concat (map (valuedTrades parseDate mps) ts)))"
  by (induction ts arbitrary: acc)
     (simp_all add: pnlStep_def valuedTrades_def parseFloatN_def Let_def trade.defs
        valued_trade.defs split: option.splits)


lemma computePnL_totals:
  "totalPnL (computePnL parseDate fromDate toDate instr s) =
     sumMtm (tradesPnL (computePnL parseDate fromDate toDate instr s)) \<and>
   valuedTradeCount (computePnL parseDate fromDate toDate instr s) =
     length (tradesPnL (computePnL parseDate fromDate toDate instr s))"
  by (simp add: computePnL_def Let_def fold_pnlStep_trades fold_pnlStep_total sumMtm_def)




text \<open>
  C2 fails on the code.  \<^verbatim>\<open>dailyPnL[date] = (dailyPnL[date] || 0) + mtm\<close> takes a running sum
  that is \<^verbatim>\<open>NaN\<close> for missing and restarts from zero, while \<^verbatim>\<open>totalPnL += mtm\<close> keeps it.
  After the two sample uploads, whose price file has an empty \<open>close_price\<close> for BRENT,
  the valued trades of 2025-01-15 have the values \<^verbatim>\<open>NaN\<close> and 500: their sum is \<^verbatim>\<open>NaN\<close>, as
  \<open>totalPnL\<close> is, but the \<open>pnl\<close> reported for that date is 500.
\<close>

theorem computePnL_daily_restarts_after_nan:
  "map mtm (tradesPnL (computePnL isoDate None None None uploadedStore)) = [NaN, Num 500, Num 1200] \<and>
   map trade_date (tradesPnL (computePnL isoDate None None None uploadedStore)) =
     [''2025-01-15'', ''2025-01-15'', ''2025-01-16''] \<and>
   sumMtm (filter (\<lambda>v. trade_date v = ''2025-01-15'')
     (tradesPnL (computePnL isoDate None None None uploadedStore))) = NaN \<and>
   dailyPnL (computePnL isoDate None None None uploadedStore) =
     [(''2025-01-15'', Num 500), (''2025-01-16'', Num 1200)] \<and>
   totalPnL (computePnL isoDate None None None uploadedStore) = NaN"
  unfolding uploadedStore_eq by code_simp

end
